theory Spec2Isabelle
  imports Main "HOL-Library.Sublist"
begin

section \<open>JavaScript values and errors\<close>

text \<open>
  The program is one TypeScript module, \<open>src/index.ts\<close>: seven HTTP handlers over a compute
  control plane (\<open>instancesClient\<close>, \<open>zoneOperationsClient\<close>) and a game-server probe
  (\<open>mc.lookup\<close>). A value that may be \<open>undefined\<close> is an \<open>option\<close>; a thrown error is a
  value of \<open>js_error\<close>, whose \<open>message\<close> is what the handlers send back.
\<close>

datatype js_error = Error string | TypeError string

fun message :: "js_error \<Rightarrow> string" where
  "message (Error m) = m"
| "message (TypeError m) = m"

text \<open>Truthiness of a string that may be undefined: \<open>undefined\<close> and \<open>""\<close> are falsy.\<close>

fun truthy :: "string option \<Rightarrow> bool" where
  "truthy None = False"
| "truthy (Some s) = (s \<noteq> [])"

text \<open>\<open>a || b\<close> on such values.\<close>

definition js_or :: "string option \<Rightarrow> string option \<Rightarrow> string option" where
  "js_or a b = (if truthy a then a else b)"

text \<open>\<open>xs.join(sep)\<close> on an array of strings.\<close>

fun join :: "string \<Rightarrow> string list \<Rightarrow> string" where
  "join sep [] = []"
| "join sep [x] = x"
| "join sep (x # y # ys) = x @ sep @ join sep (y # ys)"

text \<open>\<open>xs.filter((x) => x)\<close> on an array of possibly undefined strings.\<close>

fun filter_truthy :: "string option list \<Rightarrow> string list" where
  "filter_truthy [] = []"
| "filter_truthy (None # xs) = filter_truthy xs"
| "filter_truthy (Some s # xs) = (if s \<noteq> [] then s # filter_truthy xs else filter_truthy xs)"

subsection \<open>Numbers: \<open>parseInt\<close> and the template conversion\<close>

text \<open>
  \<open>parseInt(x)\<close> with no radix: the argument is converted to a string (\<open>undefined\<close> becomes
  \<open>"undefined"\<close>), leading white space is dropped, a sign is read, a \<open>0x\<close> prefix selects
  radix 16, and the longest prefix of digits is the value; no digit at all is \<open>NaN\<close>.
  The value is kept as an exact integer, which is the JavaScript number as long as its
  magnitude is at most \<open>2 ^ 53\<close>. Strings are sequences of 8-bit characters, so only the
  ASCII white space is recognised.
\<close>

datatype js_number = NaN | Num int

definition is_white_space :: "char \<Rightarrow> bool" where
  "is_white_space c = (of_char c \<in> {9, 10, 11, 12, 13, 32 :: nat})"

definition digit_value :: "nat \<Rightarrow> char \<Rightarrow> nat option" where
  "digit_value radix c =
     (let n = (of_char c :: nat);
          v = (if 48 \<le> n \<and> n \<le> 57 then Some (n - 48)
               else if 97 \<le> n \<and> n \<le> 122 then Some (n - 87)
               else if 65 \<le> n \<and> n \<le> 90 then Some (n - 55)
               else None)
      in case v of None \<Rightarrow> None | Some d \<Rightarrow> if d < radix then Some d else None)"

definition is_digit :: "nat \<Rightarrow> char \<Rightarrow> bool" where
  "is_digit radix c = (digit_value radix c \<noteq> None)"

definition digits_value :: "nat \<Rightarrow> string \<Rightarrow> nat" where
  "digits_value radix z =
     foldl (\<lambda>acc c. acc * radix + (case digit_value radix c of None \<Rightarrow> 0 | Some d \<Rightarrow> d)) 0 z"

definition parse_digits :: "nat \<Rightarrow> string \<Rightarrow> nat option" where
  "parse_digits radix s =
     (let z = takeWhile (is_digit radix) s
      in if z = [] then None else Some (digits_value radix z))"

definition parseInt_string :: "string \<Rightarrow> js_number" where
  "parseInt_string input =
     (let s = dropWhile is_white_space input;
          negative = (case s of c # _ \<Rightarrow> c = CHR ''-'' | [] \<Rightarrow> False);
          s1 = (case s of c # cs \<Rightarrow> if c = CHR ''+'' \<or> c = CHR ''-'' then cs else s | [] \<Rightarrow> s);
          hex = (case s1 of a # b # _ \<Rightarrow> a = CHR ''0'' \<and> (b = CHR ''x'' \<or> b = CHR ''X'') | _ \<Rightarrow> False);
          r = (if hex then parse_digits 16 (drop 2 s1) else parse_digits 10 s1)
      in case r of None \<Rightarrow> NaN
         | Some v \<Rightarrow> Num (if negative then - int v else int v))"

definition parseInt :: "string option \<Rightarrow> js_number" where
  "parseInt x = parseInt_string (case x of None \<Rightarrow> ''undefined'' | Some s \<Rightarrow> s)"

fun decimal :: "nat \<Rightarrow> string" where
  "decimal n = (if n < 10 then [char_of (48 + n)] else decimal (n div 10) @ [char_of (48 + n mod 10)])"

declare decimal.simps [simp del]

text \<open>
  A number inside a template literal: \<open>`${n}`\<close>. An integer is printed with all its
  digits, which is what JavaScript does below \<open>10 ^ 21\<close>; the properties proved keep to
  magnitudes up to \<open>2 ^ 53\<close>, where the number is the exact integer as well.
\<close>

fun number_to_string :: "js_number \<Rightarrow> string" where
  "number_to_string NaN = ''NaN''"
| "number_to_string (Num i) = (if i < 0 then CHR ''-'' # decimal (nat (- i)) else decimal (nat i))"

section \<open>The collaborators: control plane, probe, console\<close>

text \<open>The instance metadata \<open>instancesClient.get\<close> returns, as far as the module reads it.\<close>

record access_config =
  natIP :: "string option"

record network_interface =
  accessConfigs :: "access_config list option"

record instance_meta =
  networkInterfaces :: "network_interface list option"
  inst_status :: "string option"

text \<open>The operation \<open>zoneOperationsClient.wait\<close> returns (\<open>iOp\<close>).\<close>

record operation =
  op_status :: "string option"
  statusMessage :: "string option"
  warnings :: "string list option"

text \<open>
  The response of \<open>mc.lookup\<close>: \<open>{status: {players: {online, sample: [{name, id}]}}}\<close>.
  \<open>online\<close> is the text \<open>parseInt\<close> reads (its argument converted to a string);
  \<open>pretty_json\<close> is the text \<open>JSON.stringify(mcsStatus, null, 2)\<close> yields for the whole
  response, whose other fields belong to the probe library.
\<close>

record player =
  player_name :: string
  player_id :: string

record players =
  online :: "string option"
  sample :: "player list option"

record mc_status =
  mcs_players :: "players option"

record probe =
  pretty_json :: string
  mcs_status :: "mc_status option"

text \<open>
  Every call of a collaborator is recorded with its arguments and its answer, in call order.
  A collaborator is deterministic: its answer is a function of the calls made so far and of
  the arguments. \<open>project\<close> is the module constant read once from the client. The
  answer of \<open>instancesClient.start\<close> and \<open>stop\<close> is the name of the operation they
  created (\<open>operation.latestResponse.name\<close>); the answer of \<open>get\<close> is the first element of
  the returned array, which the module allows to be undefined.
\<close>

datatype event =
    StartCall string string string "js_error + string"
  | StopCall string string string "js_error + string"
  | GetCall string string string "js_error + instance_meta option"
  | WaitCall string string string "js_error + operation"
  | LookupCall string "js_error + probe option"

record adapter =
  project :: string
  instances_start :: "event list \<Rightarrow> string \<Rightarrow> string \<Rightarrow> string \<Rightarrow> js_error + string"
  instances_stop :: "event list \<Rightarrow> string \<Rightarrow> string \<Rightarrow> string \<Rightarrow> js_error + string"
  instances_get :: "event list \<Rightarrow> string \<Rightarrow> string \<Rightarrow> string \<Rightarrow> js_error + instance_meta option"
  operations_wait :: "event list \<Rightarrow> string \<Rightarrow> string \<Rightarrow> string \<Rightarrow> js_error + operation"
  mc_lookup :: "event list \<Rightarrow> string \<Rightarrow> js_error + probe option"

datatype log_entry =
    Debug string
  | Info string
  | Warn string
  | ErrorText string
  | ErrorObject js_error

record world =
  trace :: "event list"
  console :: "log_entry list"

definition log :: "log_entry \<Rightarrow> world \<Rightarrow> world" where
  "log l w = w\<lparr>console := console w @ [l]\<rparr>"

definition called :: "event \<Rightarrow> world \<Rightarrow> world" where
  "called e w = w\<lparr>trace := trace w @ [e]\<rparr>"

text \<open>
  An asynchronous function either returns, throws, or is still waiting when the bound on
  the iterations of the polling loop is used up (\<open>Pending\<close>). It is sequenced with
  \<open>await\<close>; \<open>try_catch\<close> is the handlers' \<open>try { ... } catch (err) { ... }\<close>.
\<close>

datatype 'a outcome = Return 'a | Throw js_error | Pending

definition await :: "'a outcome \<times> world \<Rightarrow> ('a \<Rightarrow> world \<Rightarrow> 'b outcome \<times> world) \<Rightarrow> 'b outcome \<times> world" where
  "await m f = (case m of (Return x, w) \<Rightarrow> f x w | (Throw e, w) \<Rightarrow> (Throw e, w) | (Pending, w) \<Rightarrow> (Pending, w))"

definition try_catch :: "'a outcome \<times> world \<Rightarrow> (js_error \<Rightarrow> world \<Rightarrow> 'a outcome \<times> world) \<Rightarrow> 'a outcome \<times> world" where
  "try_catch m h = (case m of (Throw e, w) \<Rightarrow> h e w | (Return x, w) \<Rightarrow> (Return x, w) | (Pending, w) \<Rightarrow> (Pending, w))"

definition settle :: "js_error + 'a \<Rightarrow> world \<Rightarrow> 'a outcome \<times> world" where
  "settle r w = (case r of Inl e \<Rightarrow> (Throw e, w) | Inr x \<Rightarrow> (Return x, w))"

section \<open>Operation poller\<close>

text \<open>
  \<open>waitForComputeIOperation\<close>: \<open>while (true)\<close> around \<open>zoneOperationsClient.wait\<close>, left
  by \<open>break\<close> when the status is \<open>"DONE"\<close>. The first argument bounds the number of
  iterations; with none left the function is \<open>Pending\<close>.
\<close>

definition done_status :: "operation \<Rightarrow> bool" where
  "done_status iOp = (op_status iOp = Some ''DONE'')"

definition log_status_message :: "operation \<Rightarrow> world \<Rightarrow> world" where
  "log_status_message iOp w =
     (case statusMessage iOp of
        Some m \<Rightarrow> if m \<noteq> [] then log (ErrorText (''Status: '' @ m)) w else w
      | None \<Rightarrow> w)"

definition log_warnings :: "operation \<Rightarrow> world \<Rightarrow> world" where
  "log_warnings iOp w =
     (case warnings iOp of
        Some ws \<Rightarrow> if length ws > 0 then log (Warn (''Warnings: '' @ join '', '' ws)) w else w
      | None \<Rightarrow> w)"

fun waitForComputeIOperation ::
  "adapter \<Rightarrow> nat \<Rightarrow> string \<Rightarrow> string \<Rightarrow> string \<Rightarrow> world \<Rightarrow> unit outcome \<times> world" where
  "waitForComputeIOperation ad 0 proj zone opn w = (Pending, w)"
| "waitForComputeIOperation ad (Suc fuel) proj zone opn w =
     (let w1 = log (Debug (''Waiting '' @ opn @ '' ...'')) w;
          r = operations_wait ad (trace w1) opn proj zone;
          w2 = called (WaitCall opn proj zone r) w1
      in case r of
           Inl e \<Rightarrow> (Throw e, w2)
         | Inr iOp \<Rightarrow>
            (let w3 = log_status_message iOp w2;
                 w4 = log_warnings iOp w3
             in if done_status iOp then (Return (), log (Debug (''Done '' @ opn)) w4)
                else waitForComputeIOperation ad fuel proj zone opn w4))"

section \<open>Instance state resolver\<close>

text \<open>The chain \<open>inst?.networkInterfaces?.[0]?.accessConfigs?.[0]?.natIP\<close>.\<close>

definition first_natIP :: "instance_meta option \<Rightarrow> string option" where
  "first_natIP inst =
     (case inst of None \<Rightarrow> None
      | Some i \<Rightarrow>
        (case networkInterfaces i of None \<Rightarrow> None
         | Some [] \<Rightarrow> None
         | Some (ni # _) \<Rightarrow>
           (case accessConfigs ni of None \<Rightarrow> None
            | Some [] \<Rightarrow> None
            | Some (ac # _) \<Rightarrow> natIP ac)))"

definition getVmInstance ::
  "adapter \<Rightarrow> string \<Rightarrow> string \<Rightarrow> world \<Rightarrow> (string option \<times> string option) outcome \<times> world" where
  "getVmInstance ad zone instance w =
     (let r = instances_get ad (trace w) (project ad) zone instance
      in await (settle r (called (GetCall (project ad) zone instance r) w)) (\<lambda>inst w1.
           let ip = js_or (first_natIP inst) None
           in case inst of
                None \<Rightarrow> (Throw (TypeError ''Cannot read properties of undefined (reading 'status')''), w1)
              | Some i \<Rightarrow> (Return (ip, js_or (inst_status i) None), w1)))"

definition vmStatusString :: "adapter \<Rightarrow> string \<Rightarrow> string \<Rightarrow> world \<Rightarrow> string outcome \<times> world" where
  "vmStatusString ad zone instance w =
     await (getVmInstance ad zone instance w) (\<lambda>(ip, status) w1.
       (Return (join ''\<newline>'' (filter_truthy [ip, status]) @ ''\<newline>''), w1))"

definition getVmIP :: "adapter \<Rightarrow> string \<Rightarrow> string \<Rightarrow> world \<Rightarrow> string outcome \<times> world" where
  "getVmIP ad zone instance w =
     await (getVmInstance ad zone instance w) (\<lambda>(ip, _) w1.
       case ip of
         Some a \<Rightarrow>
           if a \<noteq> [] then (Return a, w1)
           else (Throw (Error (''Instance '' @ zone @ ''/'' @ instance @ '' IP address not found - unable to connect MCS'')), w1)
       | None \<Rightarrow> (Throw (Error (''Instance '' @ zone @ ''/'' @ instance @ '' IP address not found - unable to connect MCS'')), w1))"

section \<open>Lifecycle controller\<close>

definition startInstance :: "adapter \<Rightarrow> nat \<Rightarrow> string \<Rightarrow> string \<Rightarrow> world \<Rightarrow> unit outcome \<times> world" where
  "startInstance ad fuel zone instance w =
     (let r = instances_start ad (trace w) (project ad) zone instance
      in await (settle r (called (StartCall (project ad) zone instance r) w)) (\<lambda>opName w1.
           waitForComputeIOperation ad fuel (project ad) zone opName w1))"

definition stopInstance :: "adapter \<Rightarrow> nat \<Rightarrow> string \<Rightarrow> string \<Rightarrow> world \<Rightarrow> unit outcome \<times> world" where
  "stopInstance ad fuel zone instance w =
     (let r = instances_stop ad (trace w) (project ad) zone instance
      in await (settle r (called (StopCall (project ad) zone instance r) w)) (\<lambda>opName w1.
           waitForComputeIOperation ad fuel (project ad) zone opName w1))"

section \<open>Request handlers\<close>

text \<open>
  The request as the handlers read it: \<open>req.query.zone\<close>, \<open>req.query.instance\<close>, and
  \<open>req.body\<close>. The module installs no body parser, so \<open>req.body\<close> is an object only when
  the hosting framework has put one there, and undefined otherwise; reading a field of an
  undefined body throws a \<open>TypeError\<close>.
\<close>

record req_body =
  body_zone :: "string option"
  body_instance :: "string option"

record request =
  query_zone :: "string option"
  query_instance :: "string option"
  body :: "req_body option"

record response =
  res_status :: nat
  res_type :: "string option"
  res_body :: string

definition send :: "string \<Rightarrow> response" where
  "send text = \<lparr>res_status = 200, res_type = None, res_body = text\<rparr>"

text \<open>\<open>req.query.p || req.body.p\<close>: the body is read only when the query value is falsy.\<close>

definition query_or_body ::
  "string \<Rightarrow> string option \<Rightarrow> req_body option \<Rightarrow> (req_body \<Rightarrow> string option) \<Rightarrow> js_error + string option" where
  "query_or_body field q b sel =
     (if truthy q then Inr q
      else case b of
             None \<Rightarrow> Inl (TypeError (''Cannot read properties of undefined (reading '' @ [CHR 0x27] @ field @ [CHR 0x27] @ '')''))
           | Some bd \<Rightarrow> Inr (sel bd))"

definition reqZoneInstance :: "request \<Rightarrow> js_error + (string \<times> string)" where
  "reqZoneInstance req =
     (case query_or_body ''zone'' (query_zone req) (body req) body_zone of
        Inl e \<Rightarrow> Inl e
      | Inr zone \<Rightarrow>
        (case query_or_body ''instance'' (query_instance req) (body req) body_instance of
           Inl e \<Rightarrow> Inl e
         | Inr instance \<Rightarrow>
           (case zone of
              None \<Rightarrow> Inl (Error ''Required parameter 'zone' missing'')
            | Some z \<Rightarrow>
              if z = [] then Inl (Error ''Required parameter 'zone' missing'')
              else (case instance of
                      None \<Rightarrow> Inl (Error ''Required parameter 'instance' missing'')
                    | Some i \<Rightarrow>
                      if i = [] then Inl (Error ''Required parameter 'instance' missing'')
                      else Inr (z, i)))))"

text \<open>The \<open>catch\<close> block every handler shares.\<close>

definition on_error :: "js_error \<Rightarrow> world \<Rightarrow> response outcome \<times> world" where
  "on_error err w =
     (Return \<lparr>res_status = 500, res_type = None, res_body = ''Error: '' @ message err\<rparr>,
      log (ErrorObject err) w)"

definition vmStartFunc :: "adapter \<Rightarrow> nat \<Rightarrow> request \<Rightarrow> world \<Rightarrow> response outcome \<times> world" where
  "vmStartFunc ad fuel req w =
     try_catch
       (await (settle (reqZoneInstance req) w) (\<lambda>(zone, instance) w0.
        let w1 = log (Info (''Start '' @ zone @ ''/'' @ instance)) w0
        in await (startInstance ad fuel zone instance w1) (\<lambda>_ w2.
           await (vmStatusString ad zone instance w2) (\<lambda>text w3.
             (Return (send text), w3)))))
       on_error"

definition vmStopFunc :: "adapter \<Rightarrow> nat \<Rightarrow> request \<Rightarrow> world \<Rightarrow> response outcome \<times> world" where
  "vmStopFunc ad fuel req w =
     try_catch
       (await (settle (reqZoneInstance req) w) (\<lambda>(zone, instance) w0.
        let w1 = log (Info (''Stop '' @ zone @ ''/'' @ instance)) w0
        in await (stopInstance ad fuel zone instance w1) (\<lambda>_ w2.
           await (vmStatusString ad zone instance w2) (\<lambda>text w3.
             (Return (send text), w3)))))
       on_error"

definition vmRestartFunc :: "adapter \<Rightarrow> nat \<Rightarrow> request \<Rightarrow> world \<Rightarrow> response outcome \<times> world" where
  "vmRestartFunc ad fuel req w =
     try_catch
       (await (settle (reqZoneInstance req) w) (\<lambda>(zone, instance) w0.
        let w1 = log (Info (''Restart '' @ zone @ ''/'' @ instance)) w0
        in await (stopInstance ad fuel zone instance w1) (\<lambda>_ w2.
           await (startInstance ad fuel zone instance w2) (\<lambda>_ w3.
           await (vmStatusString ad zone instance w3) (\<lambda>text w4.
             (Return (send text), w4))))))
       on_error"

definition vmStatusFunc :: "adapter \<Rightarrow> nat \<Rightarrow> request \<Rightarrow> world \<Rightarrow> response outcome \<times> world" where
  "vmStatusFunc ad fuel req w =
     try_catch
       (await (settle (reqZoneInstance req) w) (\<lambda>(zone, instance) w0.
        let w1 = log (Info (''Get '' @ zone @ ''/'' @ instance)) w0
        in await (vmStatusString ad zone instance w1) (\<lambda>text w2.
             (Return (send text), w2))))
       on_error"

text \<open>\<open>await mc.lookup({ host: ip })\<close>.\<close>

definition lookup :: "adapter \<Rightarrow> string \<Rightarrow> world \<Rightarrow> probe option outcome \<times> world" where
  "lookup ad ip w =
     (let r = mc_lookup ad (trace w) ip
      in settle r (called (LookupCall ip r) w))"

definition mcsStatusFunc :: "adapter \<Rightarrow> nat \<Rightarrow> request \<Rightarrow> world \<Rightarrow> response outcome \<times> world" where
  "mcsStatusFunc ad fuel req w =
     try_catch
       (await (settle (reqZoneInstance req) w) (\<lambda>(zone, instance) w0.
        await (getVmIP ad zone instance w0) (\<lambda>ip w1.
        let w2 = log (Info (''Get MCS '' @ ip)) w1
        in await (lookup ad ip w2) (\<lambda>mcsStatus w3.
             (Return \<lparr>res_status = 200, res_type = Some ''application/json'',
                      res_body = (case mcsStatus of None \<Rightarrow> ''undefined'' | Some p \<Rightarrow> pretty_json p) @ ''\<newline>''\<rparr>,
              w3)))))
       on_error"

text \<open>The chains \<open>mcsStatus?.status?.players?.online\<close> and \<open>mcsStatus?.status?.players?.sample\<close>.\<close>

definition probe_players :: "probe option \<Rightarrow> players option" where
  "probe_players mcsStatus =
     (case mcsStatus of None \<Rightarrow> None
      | Some p \<Rightarrow> (case mcs_status p of None \<Rightarrow> None | Some s \<Rightarrow> mcs_players s))"

definition probe_online :: "probe option \<Rightarrow> string option" where
  "probe_online mcsStatus = (case probe_players mcsStatus of None \<Rightarrow> None | Some ps \<Rightarrow> online ps)"

definition probe_sample :: "probe option \<Rightarrow> player list option" where
  "probe_sample mcsStatus = (case probe_players mcsStatus of None \<Rightarrow> None | Some ps \<Rightarrow> sample ps)"

definition mcsPlayersFunc :: "adapter \<Rightarrow> nat \<Rightarrow> request \<Rightarrow> world \<Rightarrow> response outcome \<times> world" where
  "mcsPlayersFunc ad fuel req w =
     try_catch
       (await (settle (reqZoneInstance req) w) (\<lambda>(zone, instance) w0.
        await (getVmIP ad zone instance w0) (\<lambda>ip w1.
        let w2 = log (Info (''Get MCS '' @ ip @ '' number of players'')) w1
        in await (lookup ad ip w2) (\<lambda>mcsStatus w3.
             let playersCount = parseInt (probe_online mcsStatus)
             in (Return (send (number_to_string playersCount @ ''\<newline>'')), w3)))))
       on_error"

definition mcsPlayerListFunc :: "adapter \<Rightarrow> nat \<Rightarrow> request \<Rightarrow> world \<Rightarrow> response outcome \<times> world" where
  "mcsPlayerListFunc ad fuel req w =
     try_catch
       (await (settle (reqZoneInstance req) w) (\<lambda>(zone, instance) w0.
        await (getVmIP ad zone instance w0) (\<lambda>ip w1.
        let w2 = log (Info (''Get MCS '' @ ip @ '' player list'')) w1
        in await (lookup ad ip w2) (\<lambda>mcsStatus w3.
             case probe_sample mcsStatus of
               None \<Rightarrow> (Throw (TypeError ''Cannot read properties of undefined (reading 'map')''), w3)
             | Some playersList \<Rightarrow>
                 let userList = map (\<lambda>player. player_name player @ '' '' @ player_id player) playersList
                 in (Return (send (join ''\<newline>'' userList @ ''\<newline>'')), w3)))))
       on_error"

text \<open>The routes registered with \<open>app.use\<close>.\<close>

datatype route = VmStart | VmStop | VmRestart | VmStatus | McsStatus | McsPlayerCount | McsPlayerList

fun app :: "route \<Rightarrow> adapter \<Rightarrow> nat \<Rightarrow> request \<Rightarrow> world \<Rightarrow> response outcome \<times> world" where
  "app VmStart = vmStartFunc"
| "app VmStop = vmStopFunc"
| "app VmRestart = vmRestartFunc"
| "app VmStatus = vmStatusFunc"
| "app McsStatus = mcsStatusFunc"
| "app McsPlayerCount = mcsPlayersFunc"
| "app McsPlayerList = mcsPlayerListFunc"

section \<open>Vocabulary of the properties\<close>

text \<open>Kinds of recorded calls, and the error a call answered with, if any.\<close>

fun is_start :: "event \<Rightarrow> bool" where
  "is_start (StartCall _ _ _ _) = True"
| "is_start _ = False"

fun is_stop :: "event \<Rightarrow> bool" where
  "is_stop (StopCall _ _ _ _) = True"
| "is_stop _ = False"

fun is_wait :: "event \<Rightarrow> bool" where
  "is_wait (WaitCall _ _ _ _) = True"
| "is_wait _ = False"

fun failed :: "event \<Rightarrow> js_error option" where
  "failed (StartCall _ _ _ r) = (case r of Inl e \<Rightarrow> Some e | Inr _ \<Rightarrow> None)"
| "failed (StopCall _ _ _ r) = (case r of Inl e \<Rightarrow> Some e | Inr _ \<Rightarrow> None)"
| "failed (GetCall _ _ _ r) = (case r of Inl e \<Rightarrow> Some e | Inr _ \<Rightarrow> None)"
| "failed (WaitCall _ _ _ r) = (case r of Inl e \<Rightarrow> Some e | Inr _ \<Rightarrow> None)"
| "failed (LookupCall _ r) = (case r of Inl e \<Rightarrow> Some e | Inr _ \<Rightarrow> None)"

text \<open>The wait calls on one operation that were answered with \<open>rs\<close>, in order.\<close>

definition wait_events :: "string \<Rightarrow> string \<Rightarrow> string \<Rightarrow> operation list \<Rightarrow> event list" where
  "wait_events opn proj zone rs = map (\<lambda>r. WaitCall opn proj zone (Inr r)) rs"

text \<open>
  The adapter answers the successive waits on an operation, starting after the calls \<open>h\<close>,
  with the sequence \<open>rs\<close>.
\<close>

definition answers :: "adapter \<Rightarrow> event list \<Rightarrow> string \<Rightarrow> string \<Rightarrow> string \<Rightarrow> operation list \<Rightarrow> bool" where
  "answers ad h opn proj zone rs \<longleftrightarrow>
     (\<forall>k < length rs.
        operations_wait ad (h @ wait_events opn proj zone (take k rs)) opn proj zone = Inr (rs ! k))"

text \<open>
  A run is sound when no call but the last one failed, and a failure of the last call is
  what the run throws.
\<close>

definition sound :: "event list \<Rightarrow> 'a outcome \<Rightarrow> bool" where
  "sound evs out \<longleftrightarrow>
     (\<forall>e \<in> set (butlast evs). failed e = None) \<and>
     (\<forall>err. evs \<noteq> [] \<and> failed (last evs) = Some err \<longrightarrow> out = Throw err)"

definition sound_run :: "world \<Rightarrow> 'a outcome \<times> world \<Rightarrow> bool" where
  "sound_run w m \<longleftrightarrow> (\<exists>evs. trace (snd m) = trace w @ evs \<and> sound evs (fst m))"

text \<open>
  The status text as the specification words it: the non-empty fields, address then status,
  each on a line of its own, and a newline at the end.
\<close>

fun present :: "string option \<Rightarrow> string list" where
  "present None = []"
| "present (Some s) = (if s = [] then [] else [s])"

definition status_text :: "string option \<Rightarrow> string option \<Rightarrow> string" where
  "status_text address status =
     (case present address @ present status of
        [] \<Rightarrow> ''\<newline>''
      | [x] \<Rightarrow> x @ ''\<newline>''
      | x # y # _ \<Rightarrow> x @ ''\<newline>'' @ y @ ''\<newline>'')"



text \<open>
  The console lines one iteration of the poller writes for the response it got: the waiting
  line, the status message if there is a non-empty one, the warnings joined by commas if
  there are any.
\<close>

definition status_message_line :: "operation \<Rightarrow> log_entry list" where
  "status_message_line r =
     (case statusMessage r of
        None \<Rightarrow> []
      | Some m \<Rightarrow> if m = [] then [] else [ErrorText (''Status: '' @ m)])"

definition warnings_line :: "operation \<Rightarrow> log_entry list" where
  "warnings_line r =
     (case warnings r of
        None \<Rightarrow> []
      | Some ws \<Rightarrow> if ws = [] then [] else [Warn (''Warnings: '' @ join '', '' ws)])"

definition response_lines :: "string \<Rightarrow> operation \<Rightarrow> log_entry list" where
  "response_lines opn r =
     Debug (''Waiting '' @ opn @ '' ...'') # status_message_line r @ warnings_line r"

text \<open>
  The adapter answers the waits on an operation, starting after the calls \<open>h\<close>, with \<open>rs\<close>,
  of which the last response and no earlier one is \<open>DONE\<close>, and the bound allows that many
  iterations.
\<close>

definition polled :: "adapter \<Rightarrow> nat \<Rightarrow> event list \<Rightarrow> string \<Rightarrow> string \<Rightarrow> string \<Rightarrow> operation list \<Rightarrow> bool" where
  "polled ad fuel h opn proj zone rs \<longleftrightarrow>
     rs \<noteq> [] \<and> answers ad h opn proj zone rs \<and>
     list_all (\<lambda>r. \<not> done_status r) (butlast rs) \<and> done_status (last rs) \<and>
     length rs \<le> fuel"

text \<open>The characters \<open>0\<close> to \<open>9\<close>.\<close>

definition dec_char :: "char \<Rightarrow> bool" where
  "dec_char c \<longleftrightarrow> 48 \<le> (of_char c :: nat) \<and> (of_char c :: nat) \<le> 57"

subsection \<open>A scripted adapter and sample inputs\<close>

text \<open>
  A fake adapter for concrete runs: start and stop are accepted, \<open>get\<close> returns fixed
  metadata, the k-th wait returns the k-th entry of a script (an error once the script is
  used up), and the probe returns a fixed response.
\<close>

definition wait_count :: "event list \<Rightarrow> nat" where
  "wait_count h = length (filter is_wait h)"

definition scripted_adapter ::
  "instance_meta option \<Rightarrow> (js_error + operation) list \<Rightarrow> probe option \<Rightarrow> adapter" where
  "scripted_adapter inst script pr =
     \<lparr>project = ''proj'',
      instances_start = (\<lambda>_ _ _ _. Inr ''op-start''),
      instances_stop = (\<lambda>_ _ _ _. Inr ''op-stop''),
      instances_get = (\<lambda>_ _ _ _. Inr inst),
      operations_wait = (\<lambda>h _ _ _. case drop (wait_count h) script of
                                      [] \<Rightarrow> Inl (Error ''script used up'')
                                    | r # _ \<Rightarrow> r),
      mc_lookup = (\<lambda>_ _. Inr pr)\<rparr>"

definition op_running :: operation where
  "op_running = \<lparr>op_status = Some ''RUNNING'', statusMessage = Some ''quota low'',
                 warnings = Some [''deprecated'', ''slow'']\<rparr>"

definition op_done :: operation where
  "op_done = \<lparr>op_status = Some ''DONE'', statusMessage = None, warnings = None\<rparr>"

definition meta_running :: instance_meta where
  "meta_running = \<lparr>networkInterfaces = Some [\<lparr>accessConfigs = Some [\<lparr>natIP = Some ''1.2.3.4''\<rparr>]\<rparr>],
                   inst_status = Some ''RUNNING''\<rparr>"

definition meta_terminated :: instance_meta where
  "meta_terminated = \<lparr>networkInterfaces = None, inst_status = Some ''TERMINATED''\<rparr>"

definition meta_fresh :: instance_meta where
  "meta_fresh = \<lparr>networkInterfaces = None, inst_status = None\<rparr>"

definition meta_empty_ip :: instance_meta where
  "meta_empty_ip = \<lparr>networkInterfaces = Some [\<lparr>accessConfigs = Some [\<lparr>natIP = Some []\<rparr>]\<rparr>],
                    inst_status = Some ''STOPPING''\<rparr>"

definition probe_of :: "players \<Rightarrow> probe" where
  "probe_of ps = \<lparr>pretty_json = ''{}'', mcs_status = Some \<lparr>mcs_players = Some ps\<rparr>\<rparr>"

definition probe_no_online :: probe where
  "probe_no_online = probe_of \<lparr>online = None, sample = Some []\<rparr>"

definition probe_five :: probe where
  "probe_five = probe_of \<lparr>online = Some ''5'', sample = None\<rparr>"

definition probe_two_players :: probe where
  "probe_two_players =
     probe_of \<lparr>online = Some ''2'',
               sample = Some [\<lparr>player_name = ''Alice'', player_id = ''u1''\<rparr>,
                              \<lparr>player_name = ''Bob'', player_id = ''u2''\<rparr>]\<rparr>"

definition req_ok :: request where
  "req_ok = \<lparr>query_zone = Some ''z1'', query_instance = None,
             body = Some \<lparr>body_zone = Some ''ignored'', body_instance = Some ''vm1''\<rparr>\<rparr>"



definition world0 :: world where
  "world0 = \<lparr>trace = [], console = []\<rparr>"

section \<open>Traces of the building blocks\<close>

lemma trace_log [simp]: "trace (log l w) = trace w"
  by (simp add: log_def)

lemma trace_called [simp]: "trace (called e w) = trace w @ [e]"
  by (simp add: called_def)

lemma trace_log_status_message [simp]: "trace (log_status_message iOp w) = trace w"
  by (simp add: log_status_message_def split: option.splits)

lemma trace_log_warnings [simp]: "trace (log_warnings iOp w) = trace w"
  by (simp add: log_warnings_def split: option.splits)

lemma wait_events_simps [simp]:
  "wait_events opn proj zone [] = []"
  "wait_events opn proj zone (r # rs) = WaitCall opn proj zone (Inr r) # wait_events opn proj zone rs"
  "wait_events opn proj zone (rs @ ss) = wait_events opn proj zone rs @ wait_events opn proj zone ss"
  "length (wait_events opn proj zone rs) = length rs"
  by (simp_all add: wait_events_def)

lemma answers_Cons:
  "answers ad h opn proj zone (r # rs) \<longleftrightarrow>
     operations_wait ad h opn proj zone = Inr r \<and>
     answers ad (h @ [WaitCall opn proj zone (Inr r)]) opn proj zone rs"
  unfolding answers_def
proof (intro iffI conjI allI impI)
  assume a: "\<forall>k<length (r # rs). operations_wait ad (h @ wait_events opn proj zone (take k (r # rs))) opn proj zone = Inr ((r # rs) ! k)"
  from a[rule_format, of 0] show "operations_wait ad h opn proj zone = Inr r" by simp
  fix k assume "k < length rs"
  with a[rule_format, of "Suc k"]
  show "operations_wait ad ((h @ [WaitCall opn proj zone (Inr r)]) @ wait_events opn proj zone (take k rs)) opn proj zone = Inr (rs ! k)"
    by simp
next
  fix k
  assume b: "operations_wait ad h opn proj zone = Inr r \<and>
    (\<forall>k<length rs. operations_wait ad ((h @ [WaitCall opn proj zone (Inr r)]) @ wait_events opn proj zone (take k rs)) opn proj zone = Inr (rs ! k))"
    and k: "k < length (r # rs)"
  show "operations_wait ad (h @ wait_events opn proj zone (take k (r # rs))) opn proj zone = Inr ((r # rs) ! k)"
  proof (cases k)
    case 0 with b show ?thesis by simp
  next
    case (Suc j)
    with k have "j < length rs" by simp
    with b Suc show ?thesis by simp
  qed
qed

lemma poll_step:
  assumes "operations_wait ad (trace w) opn proj zone = Inr r"
  shows "waitForComputeIOperation ad (Suc fuel) proj zone opn w =
    (let w4 = log_warnings r (log_status_message r (called (WaitCall opn proj zone (Inr r)) (log (Debug (''Waiting '' @ opn @ '' ...'')) w)))
     in if done_status r then (Return (), log (Debug (''Done '' @ opn)) w4)
        else waitForComputeIOperation ad fuel proj zone opn w4)"
  using assms by (simp add: Let_def)

lemma poll_general:
  assumes "answers ad (trace w) opn proj zone (pre @ [d])"
    and "\<forall>r \<in> set pre. \<not> done_status r" and "done_status d"
  shows "(length pre < fuel \<longrightarrow>
            fst (waitForComputeIOperation ad fuel proj zone opn w) = Return () \<and>
            trace (snd (waitForComputeIOperation ad fuel proj zone opn w)) =
              trace w @ wait_events opn proj zone (pre @ [d])) \<and>
         (fuel \<le> length pre \<longrightarrow>
            fst (waitForComputeIOperation ad fuel proj zone opn w) = Pending \<and>
            trace (snd (waitForComputeIOperation ad fuel proj zone opn w)) =
              trace w @ wait_events opn proj zone (take fuel pre))"
  using assms
proof (induction pre arbitrary: w fuel)
  case Nil
  then have a: "operations_wait ad (trace w) opn proj zone = Inr d"
    by (simp add: answers_Cons)
  show ?case
  proof (cases fuel)
    case 0 then show ?thesis by simp
  next
    case (Suc f)
    with Nil a show ?thesis by (simp add: poll_step Let_def del: waitForComputeIOperation.simps)
  qed
next
  case (Cons r pre)
  then have a: "operations_wait ad (trace w) opn proj zone = Inr r"
    and b: "answers ad (trace w @ [WaitCall opn proj zone (Inr r)]) opn proj zone (pre @ [d])"
    by (simp_all add: answers_Cons)
  show ?case
  proof (cases fuel)
    case 0 then show ?thesis by simp
  next
    case (Suc f)
    let ?w4 = "log_warnings r (log_status_message r (called (WaitCall opn proj zone (Inr r)) (log (Debug (''Waiting '' @ opn @ '' ...'')) w)))"
    have t: "trace ?w4 = trace w @ [WaitCall opn proj zone (Inr r)]" by simp
    have nd: "\<not> done_status r" using Cons.prems by simp
    have step: "waitForComputeIOperation ad fuel proj zone opn w = waitForComputeIOperation ad f proj zone opn ?w4"
      using a nd Suc by (simp add: poll_step Let_def del: waitForComputeIOperation.simps)
    have "answers ad (trace ?w4) opn proj zone (pre @ [d])" using b by simp
    from Cons.IH[OF this, of f] Cons.prems
    show ?thesis unfolding step using Suc by (simp del: waitForComputeIOperation.simps)
  qed
qed

lemma await_simps [simp]:
  "await (Return x, w) f = f x w"
  "await (Throw e, w) f = (Throw e, w)"
  "await (Pending, w) f = (Pending, w)"
  by (simp_all add: await_def)

lemma try_catch_simps [simp]:
  "try_catch (Return x, w) h = (Return x, w)"
  "try_catch (Throw e, w) h = h e w"
  "try_catch (Pending, w) h = (Pending, w)"
  by (simp_all add: try_catch_def)

lemma settle_simps [simp]:
  "settle (Inl e) w = (Throw e, w)"
  "settle (Inr x) w = (Return x, w)"
  by (simp_all add: settle_def)

lemma wait_events_is_wait [simp]: "e \<in> set (wait_events opn proj zone rs) \<Longrightarrow> is_wait e"
  by (auto simp: wait_events_def)

lemma wait_events_not_failed [simp]: "e \<in> set (wait_events opn proj zone rs) \<Longrightarrow> failed e = None"
  by (auto simp: wait_events_def)

text \<open>Shape of a polling run, whatever the adapter answers.\<close>

lemma poll_shape:
  "\<exists>pre. (\<forall>r \<in> set pre. \<not> done_status r) \<and>
     (case fst (waitForComputeIOperation ad fuel proj zone opn w) of
        Return _ \<Rightarrow> (\<exists>d. done_status d \<and>
            trace (snd (waitForComputeIOperation ad fuel proj zone opn w)) =
              trace w @ wait_events opn proj zone pre @ [WaitCall opn proj zone (Inr d)])
      | Throw e \<Rightarrow>
            trace (snd (waitForComputeIOperation ad fuel proj zone opn w)) =
              trace w @ wait_events opn proj zone pre @ [WaitCall opn proj zone (Inl e)]
      | Pending \<Rightarrow>
            trace (snd (waitForComputeIOperation ad fuel proj zone opn w)) =
              trace w @ wait_events opn proj zone pre \<and> length pre = fuel)"
proof (induction fuel arbitrary: w)
  case 0
  show ?case by (rule exI[of _ "[]"]) simp
next
  case (Suc fuel)
  let ?w1 = "log (Debug (''Waiting '' @ opn @ '' ...'')) w"
  show ?case
  proof (cases "operations_wait ad (trace w) opn proj zone")
    case (Inl e)
    then show ?thesis by (intro exI[of _ "[]"]) (simp add: Let_def)
  next
    case (Inr r)
    let ?w4 = "log_warnings r (log_status_message r (called (WaitCall opn proj zone (Inr r)) ?w1))"
    show ?thesis
    proof (cases "done_status r")
      case True
      with Inr show ?thesis
        by (intro exI[of _ "[]"]) (simp add: poll_step Let_def del: waitForComputeIOperation.simps)
    next
      case False
      have step: "waitForComputeIOperation ad (Suc fuel) proj zone opn w = waitForComputeIOperation ad fuel proj zone opn ?w4"
        using Inr False by (simp add: poll_step Let_def del: waitForComputeIOperation.simps)
      from Suc.IH[of ?w4] obtain pre where pre: "\<forall>r \<in> set pre. \<not> done_status r"
        and sh: "(case fst (waitForComputeIOperation ad fuel proj zone opn ?w4) of
        Return _ \<Rightarrow> (\<exists>d. done_status d \<and>
            trace (snd (waitForComputeIOperation ad fuel proj zone opn ?w4)) =
              trace ?w4 @ wait_events opn proj zone pre @ [WaitCall opn proj zone (Inr d)])
      | Throw e \<Rightarrow>
            trace (snd (waitForComputeIOperation ad fuel proj zone opn ?w4)) =
              trace ?w4 @ wait_events opn proj zone pre @ [WaitCall opn proj zone (Inl e)]
      | Pending \<Rightarrow>
            trace (snd (waitForComputeIOperation ad fuel proj zone opn ?w4)) =
              trace ?w4 @ wait_events opn proj zone pre \<and> length pre = fuel)"
        by blast
      show ?thesis unfolding step
        using pre sh False
        by (intro exI[of _ "r # pre"]) (auto split: outcome.splits)
    qed
  qed
qed

lemma getVmInstance_trace [simp]:
  "trace (snd (getVmInstance ad zone instance w)) =
     trace w @ [GetCall (project ad) zone instance (instances_get ad (trace w) (project ad) zone instance)]"
  by (cases "instances_get ad (trace w) (project ad) zone instance")
     (simp_all add: getVmInstance_def Let_def split: option.splits)

lemma getVmInstance_Inr:
  "instances_get ad (trace w) (project ad) zone instance = Inr (Some meta) \<Longrightarrow>
   getVmInstance ad zone instance w =
     (Return (js_or (first_natIP (Some meta)) None, js_or (inst_status meta) None),
      called (GetCall (project ad) zone instance (Inr (Some meta))) w)"
  by (simp add: getVmInstance_def Let_def)

lemma vmStatusString_trace [simp]:
  "trace (snd (vmStatusString ad zone instance w)) = trace (snd (getVmInstance ad zone instance w))"
  by (cases "getVmInstance ad zone instance w"; cases "fst (getVmInstance ad zone instance w)")
     (auto simp: vmStatusString_def split: prod.splits)

lemma getVmIP_trace [simp]:
  "trace (snd (getVmIP ad zone instance w)) = trace (snd (getVmInstance ad zone instance w))"
  by (cases "getVmInstance ad zone instance w"; cases "fst (getVmInstance ad zone instance w)")
     (auto simp: getVmIP_def split: prod.splits option.splits)

lemma sound_Nil [simp]: "sound [] out"
  by (simp add: sound_def)

lemma sound_run_same [simp]: "trace w' = trace w \<Longrightarrow> sound_run w (out, w')"
  by (simp add: sound_run_def)

lemma sound_run_cong: "trace w1 = trace w \<Longrightarrow> sound_run w1 m \<Longrightarrow> sound_run w m"
  by (simp add: sound_run_def)

lemma sound_not_Throw:
  assumes "sound evs out" and "\<And>e. out \<noteq> Throw e"
  shows "\<forall>e \<in> set evs. failed e = None"
proof (cases evs rule: rev_cases)
  case Nil then show ?thesis by simp
next
  case (snoc xs x)
  with assms have "\<forall>e \<in> set xs. failed e = None" and "failed x = None"
    by (auto simp: sound_def)
  with snoc show ?thesis by simp
qed

lemma sound_all_ok: "\<forall>e \<in> set evs. failed e = None \<Longrightarrow> sound evs out"
  by (cases evs rule: rev_cases) (auto simp: sound_def)

lemma sound_Throw_any: "sound evs (Throw e :: 'a outcome) \<Longrightarrow> sound evs (Throw e :: 'b outcome)"
  by (simp add: sound_def)

lemma sound_Pending_any: "sound evs (Pending :: 'a outcome) \<Longrightarrow> sound evs (Pending :: 'b outcome)"
  by (simp add: sound_def)

lemma sound_append:
  assumes "\<forall>e \<in> set evs1. failed e = None" and "sound evs2 out"
  shows "sound (evs1 @ evs2) out"
proof (cases "evs2 = []")
  case True
  with assms show ?thesis by (auto simp: sound_def dest: in_set_butlastD)
next
  case False
  with assms show ?thesis by (auto simp: sound_def butlast_append)
qed

lemma sound_await:
  assumes m: "sound_run w m" and f: "\<And>x w1. sound_run w1 (f x w1)"
  shows "sound_run w (await m f)"
proof (cases m)
  case (Pair out w1)
  show ?thesis
  proof (cases out)
    case (Return x)
    from m Pair Return obtain evs1 where e1: "trace w1 = trace w @ evs1" and s1: "sound evs1 (Return x :: 'a outcome)"
      by (auto simp: sound_run_def)
    have "sound_run w1 (f x w1)" by (rule f)
    then obtain evs2 where e2: "trace (snd (f x w1)) = trace w1 @ evs2" and s2: "sound evs2 (fst (f x w1))"
      by (auto simp: sound_run_def)
    have "\<forall>e \<in> set evs1. failed e = None" using sound_not_Throw[OF s1] by simp
    then have "sound (evs1 @ evs2) (fst (f x w1))" using s2 by (rule sound_append)
    with e1 e2 Pair Return show ?thesis by (auto simp: sound_run_def)
  next
    case (Throw e) with m Pair show ?thesis by (auto simp: sound_run_def intro: sound_Throw_any)
  next
    case Pending with m Pair show ?thesis by (auto simp: sound_run_def intro: sound_Pending_any)
  qed
qed

lemma sound_call:
  "failed ev = (case r of Inl e \<Rightarrow> Some e | Inr _ \<Rightarrow> None) \<Longrightarrow> sound_run w (settle r (called ev w))"
  by (cases r) (auto simp: sound_run_def sound_def)

lemma sound_poll: "sound_run w (waitForComputeIOperation ad fuel proj zone opn w)"
proof -
  from poll_shape[of ad fuel proj zone opn w] obtain pre where
    sh: "(case fst (waitForComputeIOperation ad fuel proj zone opn w) of
        Return _ \<Rightarrow> (\<exists>d. done_status d \<and>
            trace (snd (waitForComputeIOperation ad fuel proj zone opn w)) =
              trace w @ wait_events opn proj zone pre @ [WaitCall opn proj zone (Inr d)])
      | Throw e \<Rightarrow>
            trace (snd (waitForComputeIOperation ad fuel proj zone opn w)) =
              trace w @ wait_events opn proj zone pre @ [WaitCall opn proj zone (Inl e)]
      | Pending \<Rightarrow>
            trace (snd (waitForComputeIOperation ad fuel proj zone opn w)) =
              trace w @ wait_events opn proj zone pre \<and> length pre = fuel)"
    by blast
  show ?thesis
  proof (cases "fst (waitForComputeIOperation ad fuel proj zone opn w)")
    case (Return u)
    with sh obtain d where "trace (snd (waitForComputeIOperation ad fuel proj zone opn w)) =
              trace w @ wait_events opn proj zone pre @ [WaitCall opn proj zone (Inr d)]" by auto
    with Return show ?thesis unfolding sound_run_def
      by (intro exI[of _ "wait_events opn proj zone pre @ [WaitCall opn proj zone (Inr d)]"])
         (simp add: sound_def butlast_append)
  next
    case (Throw e)
    with sh show ?thesis unfolding sound_run_def
      by (intro exI[of _ "wait_events opn proj zone pre @ [WaitCall opn proj zone (Inl e)]"])
         (simp add: sound_def butlast_append)
  next
    case Pending
    with sh show ?thesis unfolding sound_run_def
      by (intro exI[of _ "wait_events opn proj zone pre"])
         (simp add: sound_all_ok)
  qed
qed

lemma sound_startInstance: "sound_run w (startInstance ad fuel zone instance w)"
  unfolding startInstance_def Let_def
  by (intro sound_await sound_call sound_poll) simp

lemma sound_stopInstance: "sound_run w (stopInstance ad fuel zone instance w)"
  unfolding stopInstance_def Let_def
  by (intro sound_await sound_call sound_poll) simp

lemma sound_getVmInstance: "sound_run w (getVmInstance ad zone instance w)"
  unfolding getVmInstance_def Let_def
  by (intro sound_await sound_call) (auto split: option.splits)

lemma sound_vmStatusString: "sound_run w (vmStatusString ad zone instance w)"
  unfolding vmStatusString_def
  by (intro sound_await sound_getVmInstance) (auto split: prod.splits)

lemma sound_getVmIP: "sound_run w (getVmIP ad zone instance w)"
  unfolding getVmIP_def
  by (intro sound_await sound_getVmInstance) (auto split: prod.splits option.splits)

lemma sound_lookup: "sound_run w (lookup ad ip w)"
  unfolding lookup_def Let_def
  by (intro sound_call) simp

lemma stopInstance_shape:
  "\<exists>tail. trace (snd (stopInstance ad fuel zone instance w)) =
            trace w @ StopCall (project ad) zone instance (instances_stop ad (trace w) (project ad) zone instance) # tail \<and>
          (\<forall>e \<in> set tail. is_wait e) \<and>
          (fst (stopInstance ad fuel zone instance w) = Return () \<longrightarrow>
             (\<exists>opn pre d. instances_stop ad (trace w) (project ad) zone instance = Inr opn \<and>
                tail = wait_events opn (project ad) zone pre @ [WaitCall opn (project ad) zone (Inr d)] \<and>
                (\<forall>r \<in> set pre. \<not> done_status r) \<and> done_status d))"
proof (cases "instances_stop ad (trace w) (project ad) zone instance")
  case (Inl e)
  then show ?thesis by (intro exI[of _ "[]"]) (simp add: stopInstance_def Let_def)
next
  case (Inr opn)
  let ?w1 = "called (StopCall (project ad) zone instance (Inr opn)) w"
  let ?P = "waitForComputeIOperation ad fuel (project ad) zone opn ?w1"
  have eq: "stopInstance ad fuel zone instance w = ?P"
    using Inr by (simp add: stopInstance_def Let_def)
  from poll_shape[of ad fuel "project ad" zone opn ?w1] obtain pre where
    pre: "\<forall>r \<in> set pre. \<not> done_status r" and
    sh: "(case fst ?P of
        Return _ \<Rightarrow> (\<exists>d. done_status d \<and>
            trace (snd ?P) = trace ?w1 @ wait_events opn (project ad) zone pre @ [WaitCall opn (project ad) zone (Inr d)])
      | Throw e \<Rightarrow> trace (snd ?P) = trace ?w1 @ wait_events opn (project ad) zone pre @ [WaitCall opn (project ad) zone (Inl e)]
      | Pending \<Rightarrow> trace (snd ?P) = trace ?w1 @ wait_events opn (project ad) zone pre \<and> length pre = fuel)"
    by blast
  show ?thesis
  proof (cases "fst ?P")
    case (Return u)
    with sh obtain d where d: "done_status d"
      and t: "trace (snd ?P) = trace ?w1 @ wait_events opn (project ad) zone pre @ [WaitCall opn (project ad) zone (Inr d)]"
      by auto
    show ?thesis unfolding eq using Inr pre d t
      by (intro exI[of _ "wait_events opn (project ad) zone pre @ [WaitCall opn (project ad) zone (Inr d)]"]) auto
  next
    case (Throw e)
    with sh show ?thesis unfolding eq using Inr
      by (intro exI[of _ "wait_events opn (project ad) zone pre @ [WaitCall opn (project ad) zone (Inl e)]"]) auto
  next
    case Pending
    with sh show ?thesis unfolding eq using Inr
      by (intro exI[of _ "wait_events opn (project ad) zone pre"]) auto
  qed
qed

lemma startInstance_shape:
  "\<exists>tail. trace (snd (startInstance ad fuel zone instance w)) =
            trace w @ StartCall (project ad) zone instance (instances_start ad (trace w) (project ad) zone instance) # tail \<and>
          (\<forall>e \<in> set tail. is_wait e)"
proof (cases "instances_start ad (trace w) (project ad) zone instance")
  case (Inl e)
  then show ?thesis by (intro exI[of _ "[]"]) (simp add: startInstance_def Let_def)
next
  case (Inr opn)
  let ?w1 = "called (StartCall (project ad) zone instance (Inr opn)) w"
  let ?P = "waitForComputeIOperation ad fuel (project ad) zone opn ?w1"
  have eq: "startInstance ad fuel zone instance w = ?P"
    using Inr by (simp add: startInstance_def Let_def)
  from poll_shape[of ad fuel "project ad" zone opn ?w1] obtain pre where
    sh: "(case fst ?P of
        Return _ \<Rightarrow> (\<exists>d. done_status d \<and>
            trace (snd ?P) = trace ?w1 @ wait_events opn (project ad) zone pre @ [WaitCall opn (project ad) zone (Inr d)])
      | Throw e \<Rightarrow> trace (snd ?P) = trace ?w1 @ wait_events opn (project ad) zone pre @ [WaitCall opn (project ad) zone (Inl e)]
      | Pending \<Rightarrow> trace (snd ?P) = trace ?w1 @ wait_events opn (project ad) zone pre \<and> length pre = fuel)"
    by blast
  show ?thesis
  proof (cases "fst ?P")
    case (Return u)
    with sh obtain d where
      t: "trace (snd ?P) = trace ?w1 @ wait_events opn (project ad) zone pre @ [WaitCall opn (project ad) zone (Inr d)]"
      by auto
    show ?thesis unfolding eq using Inr t
      by (intro exI[of _ "wait_events opn (project ad) zone pre @ [WaitCall opn (project ad) zone (Inr d)]"]) auto
  next
    case (Throw e)
    with sh show ?thesis unfolding eq using Inr
      by (intro exI[of _ "wait_events opn (project ad) zone pre @ [WaitCall opn (project ad) zone (Inl e)]"]) auto
  next
    case Pending
    with sh show ?thesis unfolding eq using Inr
      by (intro exI[of _ "wait_events opn (project ad) zone pre"]) auto
  qed
qed

lemma trace_on_error [simp]: "trace (snd (on_error err w)) = trace w"
  by (simp add: on_error_def)

lemma fst_on_error [simp]:
  "fst (on_error err w) = Return \<lparr>res_status = 500, res_type = None, res_body = ''Error: '' @ message err\<rparr>"
  by (simp add: on_error_def)

text \<open>The run of restart, phase by phase.\<close>

lemma vmRestartFunc_missing:
  "reqZoneInstance req = Inl e \<Longrightarrow> vmRestartFunc ad fuel req w = on_error e w"
  by (simp add: vmRestartFunc_def)

lemma vmRestartFunc_stop_failed:
  assumes "reqZoneInstance req = Inr (zone, instance)"
    and "fst (stopInstance ad fuel zone instance (log (Info (''Restart '' @ zone @ ''/'' @ instance)) w)) = Throw e"
  shows "vmRestartFunc ad fuel req w =
           on_error e (snd (stopInstance ad fuel zone instance (log (Info (''Restart '' @ zone @ ''/'' @ instance)) w)))"
  using assms
  by (cases "stopInstance ad fuel zone instance (log (Info (''Restart '' @ zone @ ''/'' @ instance)) w)")
     (simp add: vmRestartFunc_def Let_def)

lemma vmRestartFunc_stop_pending:
  assumes "reqZoneInstance req = Inr (zone, instance)"
    and "fst (stopInstance ad fuel zone instance (log (Info (''Restart '' @ zone @ ''/'' @ instance)) w)) = Pending"
  shows "vmRestartFunc ad fuel req w =
           (Pending, snd (stopInstance ad fuel zone instance (log (Info (''Restart '' @ zone @ ''/'' @ instance)) w)))"
  using assms
  by (cases "stopInstance ad fuel zone instance (log (Info (''Restart '' @ zone @ ''/'' @ instance)) w)")
     (simp add: vmRestartFunc_def Let_def)

lemma vmRestartFunc_stopped:
  assumes "reqZoneInstance req = Inr (zone, instance)"
    and "fst (stopInstance ad fuel zone instance (log (Info (''Restart '' @ zone @ ''/'' @ instance)) w)) = Return ()"
  shows "\<exists>rest. trace (snd (vmRestartFunc ad fuel req w)) =
           trace (snd (startInstance ad fuel zone instance
             (snd (stopInstance ad fuel zone instance (log (Info (''Restart '' @ zone @ ''/'' @ instance)) w))))) @ rest \<and>
           (\<forall>e \<in> set rest. \<not> is_start e \<and> \<not> is_stop e)"
proof -
  let ?S = "stopInstance ad fuel zone instance (log (Info (''Restart '' @ zone @ ''/'' @ instance)) w)"
  let ?T = "startInstance ad fuel zone instance (snd ?S)"
  have S: "?S = (Return (), snd ?S)" using assms(2) by (cases ?S) simp
  have body: "vmRestartFunc ad fuel req w =
     try_catch (await ?T (\<lambda>_ w3. await (vmStatusString ad zone instance w3) (\<lambda>text w4. (Return (send text), w4)))) on_error"
    using assms by (cases ?S) (simp add: vmRestartFunc_def Let_def)
  show ?thesis
  proof (cases "fst ?T")
    case (Return u)
    then have T: "?T = (Return (), snd ?T)" by (cases ?T) simp
    let ?V = "vmStatusString ad zone instance (snd ?T)"
    have "trace (snd (vmRestartFunc ad fuel req w)) = trace (snd ?V)"
      unfolding body by (subst T, cases ?V; cases "fst ?V") auto
    then show ?thesis by (intro exI[of _ "[GetCall (project ad) zone instance (instances_get ad (trace (snd ?T)) (project ad) zone instance)]"]) simp
  next
    case (Throw e)
    then have T: "?T = (Throw e, snd ?T)" by (cases ?T) simp
    show ?thesis unfolding body by (subst T, intro exI[of _ "[]"]) simp
  next
    case Pending
    then have T: "?T = (Pending, snd ?T)" by (cases ?T) simp
    show ?thesis unfolding body by (subst T, intro exI[of _ "[]"]) simp
  qed
qed

lemma is_wait_not_start_stop: "is_wait e \<Longrightarrow> \<not> is_start e \<and> \<not> is_stop e"
  by (cases e) simp_all

lemma sound_settle: "sound_run w (settle r w)"
  by (cases r) simp_all

lemma sound_at:
  "trace w' = trace w \<Longrightarrow> sound_run w (startInstance ad fuel zone instance w')"
  "trace w' = trace w \<Longrightarrow> sound_run w (stopInstance ad fuel zone instance w')"
  "trace w' = trace w \<Longrightarrow> sound_run w (vmStatusString ad zone instance w')"
  "trace w' = trace w \<Longrightarrow> sound_run w (lookup ad ip w')"
  by (erule sound_run_cong, rule sound_startInstance sound_stopInstance sound_vmStatusString sound_lookup)+

lemma sound_vmStartFunc_body:
  "sound_run w (await (settle (reqZoneInstance req) w) (\<lambda>(zone, instance) w0.
        let w1 = log (Info (''Start '' @ zone @ ''/'' @ instance)) w0
        in await (startInstance ad fuel zone instance w1) (\<lambda>_ w2.
           await (vmStatusString ad zone instance w2) (\<lambda>text w3.
             (Return (send text), w3)))))"
  apply (rule sound_await[OF sound_settle])
  apply (simp only: split_paired_all prod.case Let_def)
  apply (intro sound_await sound_at)
  apply (simp_all split: option.splits)
  done

lemma sound_vmStopFunc_body:
  "sound_run w (await (settle (reqZoneInstance req) w) (\<lambda>(zone, instance) w0.
        let w1 = log (Info (''Stop '' @ zone @ ''/'' @ instance)) w0
        in await (stopInstance ad fuel zone instance w1) (\<lambda>_ w2.
           await (vmStatusString ad zone instance w2) (\<lambda>text w3.
             (Return (send text), w3)))))"
  apply (rule sound_await[OF sound_settle])
  apply (simp only: split_paired_all prod.case Let_def)
  apply (intro sound_await sound_at)
  apply (simp_all split: option.splits)
  done

lemma sound_vmRestartFunc_body:
  "sound_run w (await (settle (reqZoneInstance req) w) (\<lambda>(zone, instance) w0.
        let w1 = log (Info (''Restart '' @ zone @ ''/'' @ instance)) w0
        in await (stopInstance ad fuel zone instance w1) (\<lambda>_ w2.
           await (startInstance ad fuel zone instance w2) (\<lambda>_ w3.
           await (vmStatusString ad zone instance w3) (\<lambda>text w4.
             (Return (send text), w4))))))"
  apply (rule sound_await[OF sound_settle])
  apply (simp only: split_paired_all prod.case Let_def)
  apply (intro sound_await sound_at)
  apply (simp_all split: option.splits)
  done

lemma sound_vmStatusFunc_body:
  "sound_run w (await (settle (reqZoneInstance req) w) (\<lambda>(zone, instance) w0.
        let w1 = log (Info (''Get '' @ zone @ ''/'' @ instance)) w0
        in await (vmStatusString ad zone instance w1) (\<lambda>text w2.
             (Return (send text), w2))))"
  apply (rule sound_await[OF sound_settle])
  apply (simp only: split_paired_all prod.case Let_def)
  apply (intro sound_await sound_at)
  apply (simp_all split: option.splits)
  done

lemma sound_mcsStatusFunc_body:
  "sound_run w (await (settle (reqZoneInstance req) w) (\<lambda>(zone, instance) w0.
        await (getVmIP ad zone instance w0) (\<lambda>ip w1.
        let w2 = log (Info (''Get MCS '' @ ip)) w1
        in await (lookup ad ip w2) (\<lambda>mcsStatus w3.
             (Return \<lparr>res_status = 200, res_type = Some ''application/json'',
                      res_body = (case mcsStatus of None \<Rightarrow> ''undefined'' | Some p \<Rightarrow> pretty_json p) @ ''\<newline>''\<rparr>,
              w3)))))"
  apply (rule sound_await[OF sound_settle])
  apply (simp only: split_paired_all prod.case Let_def)
  apply (rule sound_await[OF sound_getVmIP])
  apply (intro sound_await sound_at)
  apply (simp_all split: option.splits)
  done

lemma sound_mcsPlayersFunc_body:
  "sound_run w (await (settle (reqZoneInstance req) w) (\<lambda>(zone, instance) w0.
        await (getVmIP ad zone instance w0) (\<lambda>ip w1.
        let w2 = log (Info (''Get MCS '' @ ip @ '' number of players'')) w1
        in await (lookup ad ip w2) (\<lambda>mcsStatus w3.
             let playersCount = parseInt (probe_online mcsStatus)
             in (Return (send (number_to_string playersCount @ ''\<newline>'')), w3)))))"
  apply (rule sound_await[OF sound_settle])
  apply (simp only: split_paired_all prod.case Let_def)
  apply (rule sound_await[OF sound_getVmIP])
  apply (intro sound_await sound_at)
  apply (simp_all split: option.splits)
  done

lemma sound_mcsPlayerListFunc_body:
  "sound_run w (await (settle (reqZoneInstance req) w) (\<lambda>(zone, instance) w0.
        await (getVmIP ad zone instance w0) (\<lambda>ip w1.
        let w2 = log (Info (''Get MCS '' @ ip @ '' player list'')) w1
        in await (lookup ad ip w2) (\<lambda>mcsStatus w3.
             case probe_sample mcsStatus of
               None \<Rightarrow> (Throw (TypeError ''Cannot read properties of undefined (reading 'map')''), w3)
             | Some playersList \<Rightarrow>
                 let userList = map (\<lambda>player. player_name player @ '' '' @ player_id player) playersList
                 in (Return (send (join ''\<newline>'' userList @ ''\<newline>'')), w3)))))"
  apply (rule sound_await[OF sound_settle])
  apply (simp only: split_paired_all prod.case Let_def)
  apply (rule sound_await[OF sound_getVmIP])
  apply (intro sound_await sound_at)
  apply (simp_all split: option.splits)
  done

lemma caught:
  assumes "sound_run w m"
  shows "\<exists>evs. trace (snd (try_catch m on_error)) = trace w @ evs \<and>
           (\<forall>e \<in> set (butlast evs). failed e = None) \<and>
           (\<forall>err. evs \<noteq> [] \<and> failed (last evs) = Some err \<longrightarrow>
              fst (try_catch m on_error) =
                Return \<lparr>res_status = 500, res_type = None, res_body = ''Error: '' @ message err\<rparr>)"
proof -
  from assms obtain evs where t: "trace (snd m) = trace w @ evs" and s: "sound evs (fst m)"
    by (auto simp: sound_run_def)
  have 1: "trace (snd (try_catch m on_error)) = trace w @ evs"
    using t by (cases m; cases "fst m") auto
  have 2: "\<forall>e \<in> set (butlast evs). failed e = None" using s by (simp add: sound_def)
  have 3: "\<forall>err. evs \<noteq> [] \<and> failed (last evs) = Some err \<longrightarrow>
              fst (try_catch m on_error) =
                Return \<lparr>res_status = 500, res_type = None, res_body = ''Error: '' @ message err\<rparr>"
  proof (intro allI impI)
    fix err assume "evs \<noteq> [] \<and> failed (last evs) = Some err"
    with s have "fst m = Throw err" by (simp add: sound_def)
    then show "fst (try_catch m on_error) =
                Return \<lparr>res_status = 500, res_type = None, res_body = ''Error: '' @ message err\<rparr>"
      by (cases m) simp
  qed
  from 1 2 3 show ?thesis by blast
qed

lemma app_caught:
  "\<exists>evs. trace (snd (app route ad fuel req w)) = trace w @ evs \<and>
           (\<forall>e \<in> set (butlast evs). failed e = None) \<and>
           (\<forall>err. evs \<noteq> [] \<and> failed (last evs) = Some err \<longrightarrow>
              fst (app route ad fuel req w) =
                Return \<lparr>res_status = 500, res_type = None, res_body = ''Error: '' @ message err\<rparr>)"
proof (cases route)
  case VmStart
  show ?thesis unfolding VmStart app.simps vmStartFunc_def by (rule caught[OF sound_vmStartFunc_body])
next
  case VmStop
  show ?thesis unfolding VmStop app.simps vmStopFunc_def by (rule caught[OF sound_vmStopFunc_body])
next
  case VmRestart
  show ?thesis unfolding VmRestart app.simps vmRestartFunc_def by (rule caught[OF sound_vmRestartFunc_body])
next
  case VmStatus
  show ?thesis unfolding VmStatus app.simps vmStatusFunc_def by (rule caught[OF sound_vmStatusFunc_body])
next
  case McsStatus
  show ?thesis unfolding McsStatus app.simps mcsStatusFunc_def by (rule caught[OF sound_mcsStatusFunc_body])
next
  case McsPlayerCount
  show ?thesis unfolding McsPlayerCount app.simps mcsPlayersFunc_def by (rule caught[OF sound_mcsPlayersFunc_body])
next
  case McsPlayerList
  show ?thesis unfolding McsPlayerList app.simps mcsPlayerListFunc_def by (rule caught[OF sound_mcsPlayerListFunc_body])
qed


lemma await_Return:
  "fst (await m f) = Return y \<Longrightarrow> \<exists>x. fst m = Return x \<and> fst (f x (snd m)) = Return y"
  by (cases m; cases "fst m") auto

lemma vmStatusString_text:
  "fst (getVmInstance ad zone instance w) = Return (ip, st) \<Longrightarrow>
   fst (vmStatusString ad zone instance w) = Return (status_text ip st)"
  by (cases "getVmInstance ad zone instance w"; cases ip; cases st)
     (simp_all add: vmStatusString_def status_text_def)

lemma vmStatusString_Return:
  assumes "fst (vmStatusString ad zone instance w) = Return text"
  shows "\<exists>ip st. fst (getVmInstance ad zone instance w) = Return (ip, st) \<and> text = status_text ip st"
proof -
  from assms obtain x where x: "fst (getVmInstance ad zone instance w) = Return x"
    unfolding vmStatusString_def by (auto dest: await_Return)
  obtain ip st where "x = (ip, st)" by (cases x)
  with x assms show ?thesis by (auto dest: vmStatusString_text)
qed

lemma dec_char_digit: "d < 10 \<Longrightarrow> dec_char (char_of (48 + d :: nat))"
  by (simp add: dec_char_def)

lemma decimal_chars: "\<forall>c \<in> set (decimal n). dec_char c"
proof (induction n rule: decimal.induct)
  case (1 n)
  show ?case
  proof (cases "n < 10")
    case True
    then show ?thesis by (subst decimal.simps) (simp add: dec_char_digit)
  next
    case False
    with 1 show ?thesis by (subst decimal.simps) (simp add: dec_char_digit)
  qed
qed

lemma decimal_not_Nil: "decimal n \<noteq> []"
  by (subst decimal.simps) simp

lemma dec_char_is_digit: "dec_char c \<Longrightarrow> is_digit 10 c"
  by (auto simp: dec_char_def is_digit_def digit_value_def Let_def)

lemma dec_char_not_special:
  "dec_char c \<Longrightarrow> \<not> is_white_space c \<and> c \<noteq> CHR ''+'' \<and> c \<noteq> CHR ''-'' \<and> c \<noteq> CHR ''x'' \<and> c \<noteq> CHR ''X''"
  by (auto simp: dec_char_def is_white_space_def)

lemma digit_value_digit: "d < 10 \<Longrightarrow> digit_value 10 (char_of (48 + d :: nat)) = Some d"
  by (simp add: digit_value_def Let_def)

lemma digits_value_snoc:
  "digits_value r (z @ [c]) = digits_value r z * r + (case digit_value r c of None \<Rightarrow> 0 | Some d \<Rightarrow> d)"
  by (simp add: digits_value_def)

lemma digits_value_decimal: "digits_value 10 (decimal n) = n"
proof (induction n rule: decimal.induct)
  case (1 n)
  show ?case
  proof (cases "n < 10")
    case True
    then show ?thesis
      by (subst decimal.simps) (simp add: digits_value_def digit_value_digit)
  next
    case False
    with 1 have "digits_value 10 (decimal (n div 10)) = n div 10" by simp
    with False show ?thesis
      by (subst decimal.simps) (simp add: digits_value_snoc digit_value_digit)
  qed
qed

lemma takeWhile_all: "\<forall>x \<in> set xs. P x \<Longrightarrow> takeWhile P xs = xs"
  by (induction xs) auto

lemma parse_digits_decimal: "parse_digits 10 (decimal n) = Some n"
  using decimal_chars[of n]
  by (simp add: parse_digits_def Let_def takeWhile_all dec_char_is_digit decimal_not_Nil digits_value_decimal)

lemma parseInt_string_decimal: "parseInt_string (decimal n) = Num (int n)"
proof -
  obtain c cs where d: "decimal n = c # cs" using decimal_not_Nil[of n] by (cases "decimal n") auto
  with decimal_chars[of n] have c: "dec_char c" and cs: "\<forall>x \<in> set cs. dec_char x" by auto
  have ws: "dropWhile is_white_space (decimal n) = decimal n"
    using d c dec_char_not_special by simp
  have nohex: "\<not> (case decimal n of a # b # _ \<Rightarrow> a = CHR ''0'' \<and> (b = CHR ''x'' \<or> b = CHR ''X'') | _ \<Rightarrow> False)"
    using d cs dec_char_not_special by (cases cs) auto
  show ?thesis
    unfolding parseInt_string_def ws Let_def
    using nohex c dec_char_not_special[of c] parse_digits_decimal[of n]
    by (simp add: d)
qed

lemma parseInt_undefined: "parseInt None = NaN"
  by (simp add: parseInt_def parseInt_string_def parse_digits_def is_white_space_def is_digit_def digit_value_def Let_def)


lemma answers_Nil [simp]: "answers ad h opn proj zone []"
  by (simp add: answers_def)

lemma await_Return_eq:
  "fst (await m f) = Return y \<Longrightarrow> \<exists>x. fst m = Return x \<and> await m f = f x (snd m)"
  by (cases m; cases "fst m") auto

lemma try_catch_200_eq:
  "fst (try_catch m on_error) = Return res \<Longrightarrow> res_status res = 200 \<Longrightarrow> try_catch m on_error = m"
  by (cases m; cases "fst m") auto

lemma handler_200:
  assumes "h = try_catch m on_error" and "fst h = Return res" and "res_status res = 200"
  shows "h = m" and "fst m = Return res"
proof -
  from assms have f: "fst (try_catch m on_error) = Return res" by simp
  from try_catch_200_eq[OF f assms(3)] assms(1) show "h = m" by simp
  with assms(2) show "fst m = Return res" by simp
qed

lemma status_text_join:
  "status_text ip st = join ''\<newline>'' (present ip @ present st) @ ''\<newline>''"
  by (cases ip; cases st) (simp_all add: status_text_def)

lemma lifecycle_final_step:
  assumes "route \<in> {VmStart, VmStop, VmRestart, VmStatus}"
    and "reqZoneInstance req = Inr (zone, inst)"
    and "fst (app route ad fuel req w) = Return res" and "res_status res = 200"
  shows "\<exists>w'. fst (vmStatusString ad zone inst w') = Return (res_body res) \<and>
              snd (app route ad fuel req w) = snd (vmStatusString ad zone inst w')"
  using assms(1)
proof (elim insertE emptyE)
  assume r: "route = VmStart"
  let ?m = "await (startInstance ad fuel zone inst (log (Info (''Start '' @ zone @ ''/'' @ inst)) w)) (\<lambda>_ w2.
           await (vmStatusString ad zone inst w2) (\<lambda>text w3. (Return (send text), w3)))"
  have b: "app route ad fuel req w = try_catch ?m on_error"
    unfolding r app.simps vmStartFunc_def using assms(2) by (simp add: Let_def)
  note m = handler_200[OF b assms(3,4)]
  from await_Return_eq[OF m(2)] obtain u where
    1: "?m = await (vmStatusString ad zone inst (snd (startInstance ad fuel zone inst (log (Info (''Start '' @ zone @ ''/'' @ inst)) w)))) (\<lambda>text w3. (Return (send text), w3))"
    by auto
  with m(2) await_Return_eq[of "vmStatusString ad zone inst (snd (startInstance ad fuel zone inst (log (Info (''Start '' @ zone @ ''/'' @ inst)) w)))" "\<lambda>text w3. (Return (send text), w3)" res]
  show ?thesis unfolding m(1) by (auto simp: send_def intro!: exI)
next
  assume r: "route = VmStop"
  let ?m = "await (stopInstance ad fuel zone inst (log (Info (''Stop '' @ zone @ ''/'' @ inst)) w)) (\<lambda>_ w2.
           await (vmStatusString ad zone inst w2) (\<lambda>text w3. (Return (send text), w3)))"
  have b: "app route ad fuel req w = try_catch ?m on_error"
    unfolding r app.simps vmStopFunc_def using assms(2) by (simp add: Let_def)
  note m = handler_200[OF b assms(3,4)]
  from await_Return_eq[OF m(2)] obtain u where
    1: "?m = await (vmStatusString ad zone inst (snd (stopInstance ad fuel zone inst (log (Info (''Stop '' @ zone @ ''/'' @ inst)) w)))) (\<lambda>text w3. (Return (send text), w3))"
    by auto
  with m(2) await_Return_eq[of "vmStatusString ad zone inst (snd (stopInstance ad fuel zone inst (log (Info (''Stop '' @ zone @ ''/'' @ inst)) w)))" "\<lambda>text w3. (Return (send text), w3)" res]
  show ?thesis unfolding m(1) by (auto simp: send_def intro!: exI)
next
  assume r: "route = VmRestart"
  let ?S = "stopInstance ad fuel zone inst (log (Info (''Restart '' @ zone @ ''/'' @ inst)) w)"
  let ?k = "\<lambda>(_::unit) w3. await (vmStatusString ad zone inst w3) (\<lambda>text w4. (Return (send text), w4))"
  let ?m = "await ?S (\<lambda>_ w2. await (startInstance ad fuel zone inst w2) ?k)"
  have b: "app route ad fuel req w = try_catch ?m on_error"
    unfolding r app.simps vmRestartFunc_def using assms(2) by (simp add: Let_def)
  note m = handler_200[OF b assms(3,4)]
  from await_Return_eq[OF m(2)] obtain u where
    1: "?m = await (startInstance ad fuel zone inst (snd ?S)) ?k"
    by auto
  with m(2) have 2: "fst (await (startInstance ad fuel zone inst (snd ?S)) ?k) = Return res" by simp
  from await_Return_eq[OF 2] obtain u' where
    3: "await (startInstance ad fuel zone inst (snd ?S)) ?k =
        await (vmStatusString ad zone inst (snd (startInstance ad fuel zone inst (snd ?S)))) (\<lambda>text w4. (Return (send text), w4))"
    by auto
  with 2 await_Return_eq[of "vmStatusString ad zone inst (snd (startInstance ad fuel zone inst (snd ?S)))" "\<lambda>text w3. (Return (send text), w3)" res]
  show ?thesis unfolding m(1) 1 by (auto simp: send_def intro!: exI)
next
  assume r: "route = VmStatus"
  let ?m = "await (vmStatusString ad zone inst (log (Info (''Get '' @ zone @ ''/'' @ inst)) w)) (\<lambda>text w3. (Return (send text), w3))"
  have b: "app route ad fuel req w = try_catch ?m on_error"
    unfolding r app.simps vmStatusFunc_def using assms(2) by (simp add: Let_def)
  note m = handler_200[OF b assms(3,4)]
  with await_Return_eq[OF m(2)]
  show ?thesis by (auto simp: send_def intro!: exI)
qed






lemma stopInstance_no_start:
  "\<exists>evs. trace (snd (stopInstance ad fuel zone inst w)) = trace w @ evs \<and> (\<forall>e \<in> set evs. \<not> is_start e)"
proof -
  from stopInstance_shape[of ad fuel zone inst w] obtain tail where
    t: "trace (snd (stopInstance ad fuel zone inst w)) =
          trace w @ StopCall (project ad) zone inst (instances_stop ad (trace w) (project ad) zone inst) # tail"
    and wt: "\<forall>e \<in> set tail. is_wait e"
    by blast
  have "\<forall>e \<in> set (StopCall (project ad) zone inst (instances_stop ad (trace w) (project ad) zone inst) # tail). \<not> is_start e"
    using wt is_wait_not_start_stop by auto
  with t show ?thesis by blast
qed

lemma getVmIP_not_found:
  "instances_get ad (trace w) (project ad) zone inst = Inr (Some meta) \<Longrightarrow>
   \<not> truthy (first_natIP (Some meta)) \<Longrightarrow>
   getVmIP ad zone inst w =
     (Throw (Error (''Instance '' @ zone @ ''/'' @ inst @ '' IP address not found - unable to connect MCS'')),
      called (GetCall (project ad) zone inst (Inr (Some meta))) w)"
  by (cases "first_natIP (Some meta)") (simp_all add: getVmIP_def getVmInstance_Inr js_or_def)

lemma vmStatusString_Inr:
  "instances_get ad (trace w) (project ad) zone inst = Inr (Some meta) \<Longrightarrow>
   vmStatusString ad zone inst w =
     (Return (status_text (first_natIP (Some meta)) (inst_status meta)),
      called (GetCall (project ad) zone inst (Inr (Some meta))) w)"
  by (cases "first_natIP (Some meta)"; cases "inst_status meta")
     (simp_all add: vmStatusString_def getVmInstance_Inr js_or_def status_text_def)

lemma vmStatusFunc_Inr:
  "reqZoneInstance req = Inr (zone, inst) \<Longrightarrow>
   instances_get ad (trace w) (project ad) zone inst = Inr (Some meta) \<Longrightarrow>
   fst (vmStatusFunc ad fuel req w) = Return (send (status_text (first_natIP (Some meta)) (inst_status meta)))"
  by (simp add: vmStatusFunc_def Let_def vmStatusString_Inr)

lemma first_natIP_Some_iff:
  "first_natIP (Some meta) = Some a \<longleftrightarrow>
     (\<exists>ni nis ac acs. networkInterfaces meta = Some (ni # nis) \<and>
        accessConfigs ni = Some (ac # acs) \<and> natIP ac = Some a)"
  by (auto simp: first_natIP_def split: option.splits list.splits)

lemma js_or_None_iff: "js_or x None = Some s \<longleftrightarrow> x = Some s \<and> s \<noteq> []"
  by (cases x) (auto simp: js_or_def)

lemma status_text_falsy: "\<not> truthy a \<Longrightarrow> status_text a st = status_text None st"
  by (cases a) (simp_all add: status_text_def)

lemma status_text_falsy_status: "\<not> truthy st \<Longrightarrow> status_text a st = status_text a None"
  by (cases st) (simp_all add: status_text_def)

lemma status_text_only_status: "s \<noteq> [] \<Longrightarrow> status_text None (Some s) = s @ ''\<newline>''"
  by (simp add: status_text_def)

lemma status_text_only_address: "a \<noteq> [] \<Longrightarrow> status_text (Some a) None = a @ ''\<newline>''"
  by (simp add: status_text_def)

lemma lookup_Inr:
  "mc_lookup ad (trace w) ip = Inr mcsStatus \<Longrightarrow>
   lookup ad ip w = (Return mcsStatus, called (LookupCall ip (Inr mcsStatus)) w)"
  by (simp add: lookup_def Let_def)

lemma mcsPlayersFunc_probed:
  assumes "reqZoneInstance req = Inr (zone, inst)"
    and "fst (getVmIP ad zone inst w) = Return ip"
    and "mc_lookup ad (trace (snd (getVmIP ad zone inst w))) ip = Inr mcsStatus"
  shows "fst (mcsPlayersFunc ad fuel req w) =
           Return (send (number_to_string (parseInt (probe_online mcsStatus)) @ ''\<newline>''))"
proof -
  obtain w1 where g: "getVmIP ad zone inst w = (Return ip, w1)"
    using assms(2) by (cases "getVmIP ad zone inst w") auto
  have t: "mc_lookup ad (trace w1) ip = Inr mcsStatus"
    using assms(3) unfolding g by simp
  show ?thesis
    unfolding mcsPlayersFunc_def using assms(1) t
    by (simp add: Let_def g lookup_Inr[where mcsStatus=mcsStatus])
qed

lemma mcsPlayerListFunc_probed:
  assumes "reqZoneInstance req = Inr (zone, inst)"
    and "fst (getVmIP ad zone inst w) = Return ip"
    and "mc_lookup ad (trace (snd (getVmIP ad zone inst w))) ip = Inr mcsStatus"
  shows "fst (mcsPlayerListFunc ad fuel req w) =
           (case probe_sample mcsStatus of
              None \<Rightarrow> Return \<lparr>res_status = 500, res_type = None,
                              res_body = ''Error: '' @ ''Cannot read properties of undefined (reading 'map')''\<rparr>
            | Some playersList \<Rightarrow>
                Return (send (join ''\<newline>'' (map (\<lambda>player. player_name player @ '' '' @ player_id player) playersList) @ ''\<newline>'')))"
proof -
  obtain w1 where g: "getVmIP ad zone inst w = (Return ip, w1)"
    using assms(2) by (cases "getVmIP ad zone inst w") auto
  have t: "mc_lookup ad (trace w1) ip = Inr mcsStatus"
    using assms(3) unfolding g by simp
  show ?thesis
    unfolding mcsPlayerListFunc_def using assms(1) t
    by (simp add: Let_def g lookup_Inr[where mcsStatus=mcsStatus] on_error_def split: option.splits)
qed

lemma console_log [simp]: "console (log l w) = console w @ [l]"
  by (simp add: log_def)

lemma console_called [simp]: "console (called e w) = console w"
  by (simp add: called_def)

lemma console_log_status_message [simp]:
  "console (log_status_message r w) = console w @ status_message_line r"
  by (simp add: log_status_message_def status_message_line_def split: option.splits)

lemma console_log_warnings [simp]:
  "console (log_warnings r w) = console w @ warnings_line r"
  by (cases "warnings r") (simp_all add: log_warnings_def warnings_line_def)

lemma poll_console:
  assumes "answers ad (trace w) opn proj zone (pre @ [d])"
    and "\<forall>r \<in> set pre. \<not> done_status r"
    and "done_status d"
  shows "(length pre < fuel \<longrightarrow>
            console (snd (waitForComputeIOperation ad fuel proj zone opn w)) =
              console w @ concat (map (response_lines opn) (pre @ [d])) @ [Debug (''Done '' @ opn)]) \<and>
         (fuel \<le> length pre \<longrightarrow>
            console (snd (waitForComputeIOperation ad fuel proj zone opn w)) =
              console w @ concat (map (response_lines opn) (take fuel pre)))"
  using assms
proof (induction pre arbitrary: w fuel)
  case Nil
  then have a: "operations_wait ad (trace w) opn proj zone = Inr d"
    by (simp add: answers_Cons)
  show ?case
  proof (cases fuel)
    case 0 then show ?thesis by simp
  next
    case (Suc f)
    with Nil a show ?thesis
      by (simp add: poll_step Let_def response_lines_def del: waitForComputeIOperation.simps)
  qed
next
  case (Cons r pre)
  then have a: "operations_wait ad (trace w) opn proj zone = Inr r"
    and b: "answers ad (trace w @ [WaitCall opn proj zone (Inr r)]) opn proj zone (pre @ [d])"
    by (simp_all add: answers_Cons)
  show ?case
  proof (cases fuel)
    case 0 then show ?thesis by simp
  next
    case (Suc f)
    let ?w4 = "log_warnings r (log_status_message r (called (WaitCall opn proj zone (Inr r)) (log (Debug (''Waiting '' @ opn @ '' ...'')) w)))"
    have c: "console ?w4 = console w @ response_lines opn r"
      by (simp add: response_lines_def)
    have nd: "\<not> done_status r" using Cons.prems by simp
    have step: "waitForComputeIOperation ad fuel proj zone opn w = waitForComputeIOperation ad f proj zone opn ?w4"
      using a nd Suc by (simp add: poll_step Let_def del: waitForComputeIOperation.simps)
    have "answers ad (trace ?w4) opn proj zone (pre @ [d])" using b by simp
    from Cons.IH[OF this, of f] Cons.prems
    show ?thesis unfolding step c using Suc by (simp del: waitForComputeIOperation.simps)
  qed
qed

lemma polled_run:
  assumes "polled ad fuel (trace w) opn proj zone rs"
  shows "fst (waitForComputeIOperation ad fuel proj zone opn w) = Return ()"
    and "trace (snd (waitForComputeIOperation ad fuel proj zone opn w)) = trace w @ wait_events opn proj zone rs"
proof -
  from assms have ne: "rs \<noteq> []" and a: "answers ad (trace w) opn proj zone rs"
    and b: "\<forall>r \<in> set (butlast rs). \<not> done_status r" and d: "done_status (last rs)"
    and f: "length rs \<le> fuel"
    by (simp_all add: polled_def list_all_iff)
  from ne have rs: "rs = butlast rs @ [last rs]" by simp
  from a rs have a': "answers ad (trace w) opn proj zone (butlast rs @ [last rs])" by simp
  from ne f have f': "length (butlast rs) < fuel" by (cases rs rule: rev_cases) auto
  from poll_general[OF a' b d, of fuel] f' rs
  show "fst (waitForComputeIOperation ad fuel proj zone opn w) = Return ()"
    and "trace (snd (waitForComputeIOperation ad fuel proj zone opn w)) = trace w @ wait_events opn proj zone rs"
    by simp_all
qed

lemma startInstance_done:
  assumes "instances_start ad (trace w) (project ad) zone inst = Inr opn"
    and "polled ad fuel (trace w @ [StartCall (project ad) zone inst (Inr opn)]) opn (project ad) zone rs"
  shows "fst (startInstance ad fuel zone inst w) = Return ()"
    and "trace (snd (startInstance ad fuel zone inst w)) =
           trace w @ StartCall (project ad) zone inst (Inr opn) # wait_events opn (project ad) zone rs"
proof -
  let ?w1 = "called (StartCall (project ad) zone inst (Inr opn)) w"
  have eq: "startInstance ad fuel zone inst w = waitForComputeIOperation ad fuel (project ad) zone opn ?w1"
    using assms(1) by (simp add: startInstance_def Let_def)
  have p: "polled ad fuel (trace ?w1) opn (project ad) zone rs" using assms(2) by simp
  from polled_run[OF p]
  show "fst (startInstance ad fuel zone inst w) = Return ()"
    and "trace (snd (startInstance ad fuel zone inst w)) =
           trace w @ StartCall (project ad) zone inst (Inr opn) # wait_events opn (project ad) zone rs"
    unfolding eq by simp_all
qed

lemma stopInstance_done:
  assumes "instances_stop ad (trace w) (project ad) zone inst = Inr opn"
    and "polled ad fuel (trace w @ [StopCall (project ad) zone inst (Inr opn)]) opn (project ad) zone rs"
  shows "fst (stopInstance ad fuel zone inst w) = Return ()"
    and "trace (snd (stopInstance ad fuel zone inst w)) =
           trace w @ StopCall (project ad) zone inst (Inr opn) # wait_events opn (project ad) zone rs"
proof -
  let ?w1 = "called (StopCall (project ad) zone inst (Inr opn)) w"
  have eq: "stopInstance ad fuel zone inst w = waitForComputeIOperation ad fuel (project ad) zone opn ?w1"
    using assms(1) by (simp add: stopInstance_def Let_def)
  have p: "polled ad fuel (trace ?w1) opn (project ad) zone rs" using assms(2) by simp
  from polled_run[OF p]
  show "fst (stopInstance ad fuel zone inst w) = Return ()"
    and "trace (snd (stopInstance ad fuel zone inst w)) =
           trace w @ StopCall (project ad) zone inst (Inr opn) # wait_events opn (project ad) zone rs"
    unfolding eq by simp_all
qed

lemma status_text_js_or:
  "status_text (js_or a None) (js_or s None) = status_text a s"
  by (cases a; cases s) (simp_all add: js_or_def status_text_def)

lemma respond_status:
  assumes "instances_get ad (trace w) (project ad) zone inst = Inr (Some meta)"
  shows "fst (try_catch (await (vmStatusString ad zone inst w) (\<lambda>text w3. (Return (send text), w3))) on_error) =
           Return (send (status_text (js_or (first_natIP (Some meta)) None) (js_or (inst_status meta) None)))"
  by (simp add: vmStatusString_Inr[OF assms] status_text_js_or)

lemma vmStatusFunc_answers:
  assumes "reqZoneInstance req = Inr (zone, inst)"
    and "instances_get ad (trace w) (project ad) zone inst = Inr (Some meta)"
  shows "fst (vmStatusFunc ad fuel req w) =
           Return (send (status_text (js_or (first_natIP (Some meta)) None) (js_or (inst_status meta) None)))"
  using vmStatusFunc_Inr[OF assms] by (simp add: status_text_js_or)

lemma vmStartFunc_answers:
  assumes "reqZoneInstance req = Inr (zone, inst)"
    and "instances_start ad (trace w) (project ad) zone inst = Inr opn"
    and "polled ad fuel (trace w @ [StartCall (project ad) zone inst (Inr opn)]) opn (project ad) zone rs"
    and "instances_get ad (trace w @ StartCall (project ad) zone inst (Inr opn) # wait_events opn (project ad) zone rs)
           (project ad) zone inst = Inr (Some meta)"
  shows "fst (vmStartFunc ad fuel req w) =
           Return (send (status_text (js_or (first_natIP (Some meta)) None) (js_or (inst_status meta) None)))"
proof -
  let ?w1 = "log (Info (''Start '' @ zone @ ''/'' @ inst)) w"
  have s: "instances_start ad (trace ?w1) (project ad) zone inst = Inr opn" using assms(2) by simp
  have p: "polled ad fuel (trace ?w1 @ [StartCall (project ad) zone inst (Inr opn)]) opn (project ad) zone rs"
    using assms(3) by simp
  obtain o2 w2 where S: "startInstance ad fuel zone inst ?w1 = (o2, w2)" by (cases "startInstance ad fuel zone inst ?w1")
  from startInstance_done[OF s p] S have o2: "o2 = Return ()"
    and t2: "trace w2 = trace w @ StartCall (project ad) zone inst (Inr opn) # wait_events opn (project ad) zone rs"
    by simp_all
  have g: "instances_get ad (trace w2) (project ad) zone inst = Inr (Some meta)"
    unfolding t2 by (rule assms(4))
  show ?thesis
    unfolding vmStartFunc_def using assms(1) S o2 respond_status[OF g]
    by (simp add: Let_def)
qed

lemma vmStopFunc_answers:
  assumes "reqZoneInstance req = Inr (zone, inst)"
    and "instances_stop ad (trace w) (project ad) zone inst = Inr opn"
    and "polled ad fuel (trace w @ [StopCall (project ad) zone inst (Inr opn)]) opn (project ad) zone rs"
    and "instances_get ad (trace w @ StopCall (project ad) zone inst (Inr opn) # wait_events opn (project ad) zone rs)
           (project ad) zone inst = Inr (Some meta)"
  shows "fst (vmStopFunc ad fuel req w) =
           Return (send (status_text (js_or (first_natIP (Some meta)) None) (js_or (inst_status meta) None)))"
proof -
  let ?w1 = "log (Info (''Stop '' @ zone @ ''/'' @ inst)) w"
  have s: "instances_stop ad (trace ?w1) (project ad) zone inst = Inr opn" using assms(2) by simp
  have p: "polled ad fuel (trace ?w1 @ [StopCall (project ad) zone inst (Inr opn)]) opn (project ad) zone rs"
    using assms(3) by simp
  obtain o2 w2 where S: "stopInstance ad fuel zone inst ?w1 = (o2, w2)" by (cases "stopInstance ad fuel zone inst ?w1")
  from stopInstance_done[OF s p] S have o2: "o2 = Return ()"
    and t2: "trace w2 = trace w @ StopCall (project ad) zone inst (Inr opn) # wait_events opn (project ad) zone rs"
    by simp_all
  have g: "instances_get ad (trace w2) (project ad) zone inst = Inr (Some meta)"
    unfolding t2 by (rule assms(4))
  show ?thesis
    unfolding vmStopFunc_def using assms(1) S o2 respond_status[OF g]
    by (simp add: Let_def)
qed

lemma vmRestartFunc_answers:
  assumes "reqZoneInstance req = Inr (zone, inst)"
    and "instances_stop ad (trace w) (project ad) zone inst = Inr opn"
    and "polled ad fuel (trace w @ [StopCall (project ad) zone inst (Inr opn)]) opn (project ad) zone rs"
    and "instances_start ad (trace w @ StopCall (project ad) zone inst (Inr opn) # wait_events opn (project ad) zone rs)
           (project ad) zone inst = Inr opn'"
    and "polled ad fuel
           (trace w @ StopCall (project ad) zone inst (Inr opn) # wait_events opn (project ad) zone rs @
              [StartCall (project ad) zone inst (Inr opn')])
           opn' (project ad) zone rs'"
    and "instances_get ad
           (trace w @ StopCall (project ad) zone inst (Inr opn) # wait_events opn (project ad) zone rs @
              StartCall (project ad) zone inst (Inr opn') # wait_events opn' (project ad) zone rs')
           (project ad) zone inst = Inr (Some meta)"
  shows "fst (vmRestartFunc ad fuel req w) =
           Return (send (status_text (js_or (first_natIP (Some meta)) None) (js_or (inst_status meta) None)))"
proof -
  let ?w1 = "log (Info (''Restart '' @ zone @ ''/'' @ inst)) w"
  have s: "instances_stop ad (trace ?w1) (project ad) zone inst = Inr opn" using assms(2) by simp
  have p: "polled ad fuel (trace ?w1 @ [StopCall (project ad) zone inst (Inr opn)]) opn (project ad) zone rs"
    using assms(3) by simp
  obtain o2 w2 where S: "stopInstance ad fuel zone inst ?w1 = (o2, w2)" by (cases "stopInstance ad fuel zone inst ?w1")
  from stopInstance_done[OF s p] S have o2: "o2 = Return ()"
    and t2: "trace w2 = trace w @ StopCall (project ad) zone inst (Inr opn) # wait_events opn (project ad) zone rs"
    by simp_all
  have s': "instances_start ad (trace w2) (project ad) zone inst = Inr opn'"
    unfolding t2 by (rule assms(4))
  have p': "polled ad fuel (trace w2 @ [StartCall (project ad) zone inst (Inr opn')]) opn' (project ad) zone rs'"
    unfolding t2 using assms(5) by simp
  obtain o3 w3 where T: "startInstance ad fuel zone inst w2 = (o3, w3)" by (cases "startInstance ad fuel zone inst w2")
  from startInstance_done[OF s' p'] T have o3: "o3 = Return ()"
    and t3: "trace w3 = trace w2 @ StartCall (project ad) zone inst (Inr opn') # wait_events opn' (project ad) zone rs'"
    by simp_all
  have g: "instances_get ad (trace w3) (project ad) zone inst = Inr (Some meta)"
    unfolding t3 t2 using assms(6) by simp
  show ?thesis
    unfolding vmRestartFunc_def using assms(1) S o2 T o3 respond_status[OF g]
    by (simp add: Let_def)
qed

section \<open>The claims\<close>

text \<open>
  C1. Suppose the adapter answers the successive waits on an operation with the responses
  \<open>pre @ [d]\<close>, where no response of \<open>pre\<close> has status \<open>DONE\<close> and \<open>d\<close> is the first that
  has. Then \<open>waitForComputeIOperation\<close> returns as soon as it may iterate more than
  \<open>length pre\<close> times, having called the wait primitive exactly \<open>length pre + 1\<close> times, with
  those responses and nothing else added to the record of calls. Whatever status messages
  or warnings the responses carry, they change neither the calls nor the outcome; they are
  written to the console: for each response, in order, the waiting line, the status message
  as an error line if it is non-empty, and the warnings joined by commas as one warning
  line if there are any, and the done line at the end. With \<open>fuel \<le> length pre\<close> iterations
  the function has made \<open>fuel\<close> calls, written the lines of those responses, and has not
  returned.
\<close>

theorem poll_until_done:
  assumes "answers ad (trace w) opn proj zone (pre @ [d])"
    and "\<forall>r \<in> set pre. \<not> done_status r"
    and "done_status d"
  shows "(length pre < fuel \<longrightarrow>
            fst (waitForComputeIOperation ad fuel proj zone opn w) = Return () \<and>
            trace (snd (waitForComputeIOperation ad fuel proj zone opn w)) =
              trace w @ wait_events opn proj zone (pre @ [d]) \<and>
            length (wait_events opn proj zone (pre @ [d])) = length pre + 1 \<and>
            console (snd (waitForComputeIOperation ad fuel proj zone opn w)) =
              console w @ concat (map (response_lines opn) (pre @ [d])) @ [Debug (''Done '' @ opn)]) \<and>
         (fuel \<le> length pre \<longrightarrow>
            fst (waitForComputeIOperation ad fuel proj zone opn w) = Pending \<and>
            trace (snd (waitForComputeIOperation ad fuel proj zone opn w)) =
              trace w @ wait_events opn proj zone (take fuel pre) \<and>
            console (snd (waitForComputeIOperation ad fuel proj zone opn w)) =
              console w @ concat (map (response_lines opn) (take fuel pre)))"
  using poll_general[OF assms, of fuel] poll_console[OF assms, of fuel] by simp

text \<open>
  Three non-terminal responses, each with a status message and two warnings, then a terminal
  one: four calls, and the console shows every message and warning.
\<close>

theorem poll_until_done_witness:
  "answers (scripted_adapter None [Inr op_running, Inr op_running, Inr op_running, Inr op_done] None)
     (trace world0) ''op-1'' ''proj'' ''z1'' ([op_running, op_running, op_running] @ [op_done]) \<and>
   \<not> done_status op_running \<and>
   done_status op_done \<and>
   fst (waitForComputeIOperation
          (scripted_adapter None [Inr op_running, Inr op_running, Inr op_running, Inr op_done] None)
          4 ''proj'' ''z1'' ''op-1'' world0) = Return () \<and>
   length (trace (snd (waitForComputeIOperation
          (scripted_adapter None [Inr op_running, Inr op_running, Inr op_running, Inr op_done] None)
          4 ''proj'' ''z1'' ''op-1'' world0))) = 4 \<and>
   console (snd (waitForComputeIOperation
          (scripted_adapter None [Inr op_running, Inr op_running, Inr op_running, Inr op_done] None)
          4 ''proj'' ''z1'' ''op-1'' world0)) =
     [Debug ''Waiting op-1 ...'', ErrorText ''Status: quota low'', Warn ''Warnings: deprecated, slow'',
      Debug ''Waiting op-1 ...'', ErrorText ''Status: quota low'', Warn ''Warnings: deprecated, slow'',
      Debug ''Waiting op-1 ...'', ErrorText ''Status: quota low'', Warn ''Warnings: deprecated, slow'',
      Debug ''Waiting op-1 ...'', Debug ''Done op-1''] \<and>
   fst (waitForComputeIOperation
          (scripted_adapter None [Inr op_running, Inr op_running, Inr op_running, Inr op_done] None)
          3 ''proj'' ''z1'' ''op-1'' world0) = Pending"
proof -
  let ?ad = "scripted_adapter None [Inr op_running, Inr op_running, Inr op_running, Inr op_done] None"
  have a: "answers ?ad (trace world0) ''op-1'' ''proj'' ''z1'' ([op_running, op_running, op_running] @ [op_done])"
    by (simp add: answers_Cons scripted_adapter_def wait_count_def world0_def)
  have b: "\<forall>r \<in> set [op_running, op_running, op_running]. \<not> done_status r"
    by (simp add: done_status_def op_running_def)
  have c: "done_status op_done"
    by (simp add: done_status_def op_done_def)
  have l: "response_lines ''op-1'' op_running =
             [Debug ''Waiting op-1 ...'', ErrorText ''Status: quota low'', Warn ''Warnings: deprecated, slow'']"
    "response_lines ''op-1'' op_done = [Debug ''Waiting op-1 ...'']"
    by (simp_all add: response_lines_def status_message_line_def warnings_line_def op_running_def op_done_def)
  from poll_until_done[OF a b c, of 4] poll_until_done[OF a b c, of 3] a b c
  show ?thesis by (simp add: world0_def l)
qed

text \<open>
  C2. In every run of the restart handler, finished or not, the calls it adds to the record
  either contain no start call at all, or they begin with the accepted stop call for the
  zone and instance of the request, followed
  only by waits on the stop operation of which the last, and no earlier one, reports
  \<open>DONE\<close>, followed at once by the start call; after the start call there is no further
  start or stop call. So the start mutation is issued only after the terminal poll of the
  stop operation, and the two phases never interleave.
\<close>

theorem restart_stop_before_start:
  "\<exists>evs. trace (snd (vmRestartFunc ad fuel req w)) = trace w @ evs \<and>
     ((\<forall>e \<in> set evs. \<not> is_start e) \<or>
      (\<exists>zone instance opn pre d r rest.
         reqZoneInstance req = Inr (zone, instance) \<and>
         evs = StopCall (project ad) zone instance (Inr opn) #
               wait_events opn (project ad) zone pre @
               [WaitCall opn (project ad) zone (Inr d)] @
               StartCall (project ad) zone instance r # rest \<and>
         (\<forall>x \<in> set pre. \<not> done_status x) \<and> done_status d \<and>
         (\<forall>e \<in> set rest. \<not> is_start e \<and> \<not> is_stop e)))"
proof (cases "reqZoneInstance req")
  case (Inl e)
  then show ?thesis by (intro exI[of _ "[]"]) (simp add: vmRestartFunc_missing)
next
  case (Inr zi)
  obtain zone inst where zi: "zi = (zone, inst)" by (cases zi)
  let ?w1 = "log (Info (''Restart '' @ zone @ ''/'' @ inst)) w"
  let ?S = "stopInstance ad fuel zone inst ?w1"
  from stopInstance_shape[of ad fuel zone inst ?w1] obtain tail where
    tS: "trace (snd ?S) = trace w @ StopCall (project ad) zone inst (instances_stop ad (trace w) (project ad) zone inst) # tail"
    and wS: "\<forall>e \<in> set tail. is_wait e"
    and rS: "fst ?S = Return () \<longrightarrow>
             (\<exists>opn pre d. instances_stop ad (trace w) (project ad) zone inst = Inr opn \<and>
                tail = wait_events opn (project ad) zone pre @ [WaitCall opn (project ad) zone (Inr d)] \<and>
                (\<forall>r \<in> set pre. \<not> done_status r) \<and> done_status d)"
    by auto
  have nostart: "\<forall>e \<in> set (StopCall (project ad) zone inst (instances_stop ad (trace w) (project ad) zone inst) # tail). \<not> is_start e"
    using wS is_wait_not_start_stop by auto
  show ?thesis
  proof (cases "fst ?S")
    case (Throw e)
    with Inr zi tS nostart show ?thesis
      by (intro exI[of _ "StopCall (project ad) zone inst (instances_stop ad (trace w) (project ad) zone inst) # tail"])
         (simp add: vmRestartFunc_stop_failed)
  next
    case Pending
    with Inr zi tS nostart show ?thesis
      by (intro exI[of _ "StopCall (project ad) zone inst (instances_stop ad (trace w) (project ad) zone inst) # tail"])
         (simp add: vmRestartFunc_stop_pending)
  next
    case (Return u)
    then have R: "fst ?S = Return ()" by simp
    with rS obtain opn pre d where
      opn: "instances_stop ad (trace w) (project ad) zone inst = Inr opn"
      and tl: "tail = wait_events opn (project ad) zone pre @ [WaitCall opn (project ad) zone (Inr d)]"
      and pre: "\<forall>r \<in> set pre. \<not> done_status r" and d: "done_status d"
      by blast
    let ?T = "startInstance ad fuel zone inst (snd ?S)"
    from startInstance_shape[of ad fuel zone inst "snd ?S"] obtain tail' where
      tT: "trace (snd ?T) = trace (snd ?S) @ StartCall (project ad) zone inst (instances_start ad (trace (snd ?S)) (project ad) zone inst) # tail'"
      and wT: "\<forall>e \<in> set tail'. is_wait e"
      by auto
    from vmRestartFunc_stopped[of req zone inst ad fuel w] Inr zi R obtain rest where
      tR: "trace (snd (vmRestartFunc ad fuel req w)) = trace (snd ?T) @ rest"
      and nR: "\<forall>e \<in> set rest. \<not> is_start e \<and> \<not> is_stop e"
      by auto
    let ?evs = "StopCall (project ad) zone inst (Inr opn) #
               wait_events opn (project ad) zone pre @
               [WaitCall opn (project ad) zone (Inr d)] @
               StartCall (project ad) zone inst (instances_start ad (trace (snd ?S)) (project ad) zone inst) # (tail' @ rest)"
    have 1: "trace (snd (vmRestartFunc ad fuel req w)) = trace w @ ?evs"
      using tR tT tS opn tl by simp
    have 2: "\<forall>e \<in> set (tail' @ rest). \<not> is_start e \<and> \<not> is_stop e"
      using wT nR is_wait_not_start_stop by auto
    show ?thesis
    proof (rule exI[of _ ?evs], rule conjI[OF 1], rule disjI2)
      show "\<exists>zone instance opn pre d r rest.
         reqZoneInstance req = Inr (zone, instance) \<and>
         ?evs = StopCall (project ad) zone instance (Inr opn) #
               wait_events opn (project ad) zone pre @
               [WaitCall opn (project ad) zone (Inr d)] @
               StartCall (project ad) zone instance r # rest \<and>
         (\<forall>x \<in> set pre. \<not> done_status x) \<and> done_status d \<and>
         (\<forall>e \<in> set rest. \<not> is_start e \<and> \<not> is_stop e)"
        using pre d 2 Inr zi by blast
    qed
  qed
qed

text \<open>A restart whose stop operation needs two polls and whose start operation needs one.\<close>

theorem restart_stop_before_start_witness:
  "trace (snd (vmRestartFunc (scripted_adapter (Some meta_running) [Inr op_running, Inr op_done, Inr op_done] None) 5 req_ok world0)) =
     [StopCall ''proj'' ''z1'' ''vm1'' (Inr ''op-stop''),
      WaitCall ''op-stop'' ''proj'' ''z1'' (Inr op_running),
      WaitCall ''op-stop'' ''proj'' ''z1'' (Inr op_done),
      StartCall ''proj'' ''z1'' ''vm1'' (Inr ''op-start''),
      WaitCall ''op-start'' ''proj'' ''z1'' (Inr op_done),
      GetCall ''proj'' ''z1'' ''vm1'' (Inr (Some meta_running))] \<and>
   (\<exists>evs. trace (snd (vmRestartFunc (scripted_adapter (Some meta_running) [Inr op_running, Inr op_done, Inr op_done] None) 5 req_ok world0)) = trace world0 @ evs \<and>
     ((\<forall>e \<in> set evs. \<not> is_start e) \<or>
      (\<exists>zone instance opn pre d r rest.
         reqZoneInstance req_ok = Inr (zone, instance) \<and>
         evs = StopCall (project (scripted_adapter (Some meta_running) [Inr op_running, Inr op_done, Inr op_done] None)) zone instance (Inr opn) #
               wait_events opn (project (scripted_adapter (Some meta_running) [Inr op_running, Inr op_done, Inr op_done] None)) zone pre @
               [WaitCall opn (project (scripted_adapter (Some meta_running) [Inr op_running, Inr op_done, Inr op_done] None)) zone (Inr d)] @
               StartCall (project (scripted_adapter (Some meta_running) [Inr op_running, Inr op_done, Inr op_done] None)) zone instance r # rest \<and>
         (\<forall>x \<in> set pre. \<not> done_status x) \<and> done_status d \<and>
         (\<forall>e \<in> set rest. \<not> is_start e \<and> \<not> is_stop e))))"
proof -
  have a: "trace (snd (vmRestartFunc (scripted_adapter (Some meta_running) [Inr op_running, Inr op_done, Inr op_done] None) 5 req_ok world0)) =
     [StopCall ''proj'' ''z1'' ''vm1'' (Inr ''op-stop''),
      WaitCall ''op-stop'' ''proj'' ''z1'' (Inr op_running),
      WaitCall ''op-stop'' ''proj'' ''z1'' (Inr op_done),
      StartCall ''proj'' ''z1'' ''vm1'' (Inr ''op-start''),
      WaitCall ''op-start'' ''proj'' ''z1'' (Inr op_done),
      GetCall ''proj'' ''z1'' ''vm1'' (Inr (Some meta_running))]"
    by code_simp
  show ?thesis
    by (rule conjI[OF a restart_stop_before_start])
qed

text \<open>
  C3. For a request with zone and instance, start, stop, restart and status answer with
  status 200 and the status text of the resolved instance state, whenever the collaborators
  let the run come to its end: the mutation is accepted, the waits on its operation reach
  \<open>DONE\<close> within the bound (for restart: first those of the stop, then those of the start),
  and the metadata is returned. The status text is the non-empty fields of the state,
  address then status, joined by newlines, with one newline at the end; an absent or empty
  field contributes nothing. Conversely, whenever one of the four routes answers with
  status 200, the body is the status text of the state resolved by the last call of the run.
  (With both fields absent the text is the single newline.)
\<close>

theorem status_text_rendering:
  assumes "reqZoneInstance req = Inr (zone, instance)"
  shows
    "(\<forall>meta.
        instances_get ad (trace w) (project ad) zone instance = Inr (Some meta) \<longrightarrow>
        fst (app VmStatus ad fuel req w) =
          Return \<lparr>res_status = 200, res_type = None,
                  res_body = status_text (js_or (first_natIP (Some meta)) None) (js_or (inst_status meta) None)\<rparr>) \<and>
     (\<forall>opn rs meta.
        instances_start ad (trace w) (project ad) zone instance = Inr opn \<longrightarrow>
        polled ad fuel (trace w @ [StartCall (project ad) zone instance (Inr opn)]) opn (project ad) zone rs \<longrightarrow>
        instances_get ad
          (trace w @ StartCall (project ad) zone instance (Inr opn) # wait_events opn (project ad) zone rs)
          (project ad) zone instance = Inr (Some meta) \<longrightarrow>
        fst (app VmStart ad fuel req w) =
          Return \<lparr>res_status = 200, res_type = None,
                  res_body = status_text (js_or (first_natIP (Some meta)) None) (js_or (inst_status meta) None)\<rparr>) \<and>
     (\<forall>opn rs meta.
        instances_stop ad (trace w) (project ad) zone instance = Inr opn \<longrightarrow>
        polled ad fuel (trace w @ [StopCall (project ad) zone instance (Inr opn)]) opn (project ad) zone rs \<longrightarrow>
        instances_get ad
          (trace w @ StopCall (project ad) zone instance (Inr opn) # wait_events opn (project ad) zone rs)
          (project ad) zone instance = Inr (Some meta) \<longrightarrow>
        fst (app VmStop ad fuel req w) =
          Return \<lparr>res_status = 200, res_type = None,
                  res_body = status_text (js_or (first_natIP (Some meta)) None) (js_or (inst_status meta) None)\<rparr>) \<and>
     (\<forall>opn rs opn' rs' meta.
        instances_stop ad (trace w) (project ad) zone instance = Inr opn \<longrightarrow>
        polled ad fuel (trace w @ [StopCall (project ad) zone instance (Inr opn)]) opn (project ad) zone rs \<longrightarrow>
        instances_start ad
          (trace w @ StopCall (project ad) zone instance (Inr opn) # wait_events opn (project ad) zone rs)
          (project ad) zone instance = Inr opn' \<longrightarrow>
        polled ad fuel
          (trace w @ StopCall (project ad) zone instance (Inr opn) # wait_events opn (project ad) zone rs @
             [StartCall (project ad) zone instance (Inr opn')])
          opn' (project ad) zone rs' \<longrightarrow>
        instances_get ad
          (trace w @ StopCall (project ad) zone instance (Inr opn) # wait_events opn (project ad) zone rs @
             StartCall (project ad) zone instance (Inr opn') # wait_events opn' (project ad) zone rs')
          (project ad) zone instance = Inr (Some meta) \<longrightarrow>
        fst (app VmRestart ad fuel req w) =
          Return \<lparr>res_status = 200, res_type = None,
                  res_body = status_text (js_or (first_natIP (Some meta)) None) (js_or (inst_status meta) None)\<rparr>) \<and>
     (\<forall>route res.
        route \<in> {VmStart, VmStop, VmRestart, VmStatus} \<longrightarrow>
        fst (app route ad fuel req w) = Return res \<longrightarrow> res_status res = 200 \<longrightarrow>
        (\<exists>w' ip st.
           fst (getVmInstance ad zone instance w') = Return (ip, st) \<and>
           trace (snd (app route ad fuel req w)) = trace (snd (getVmInstance ad zone instance w')) \<and>
           res_body res = status_text ip st)) \<and>
     (\<forall>ip st. status_text ip st = join ''\<newline>'' (present ip @ present st) @ ''\<newline>'')"
proof (intro conjI allI impI)
  fix meta
  assume "instances_get ad (trace w) (project ad) zone instance = Inr (Some meta)"
  from vmStatusFunc_answers[OF assms this, of fuel]
  show "fst (app VmStatus ad fuel req w) =
          Return \<lparr>res_status = 200, res_type = None,
                  res_body = status_text (js_or (first_natIP (Some meta)) None) (js_or (inst_status meta) None)\<rparr>"
    by (simp add: send_def)
next
  fix opn rs meta
  assume a: "instances_start ad (trace w) (project ad) zone instance = Inr opn"
    and b: "polled ad fuel (trace w @ [StartCall (project ad) zone instance (Inr opn)]) opn (project ad) zone rs"
    and c: "instances_get ad
          (trace w @ StartCall (project ad) zone instance (Inr opn) # wait_events opn (project ad) zone rs)
          (project ad) zone instance = Inr (Some meta)"
  from vmStartFunc_answers[OF assms a b c]
  show "fst (app VmStart ad fuel req w) =
          Return \<lparr>res_status = 200, res_type = None,
                  res_body = status_text (js_or (first_natIP (Some meta)) None) (js_or (inst_status meta) None)\<rparr>"
    by (simp add: send_def)
next
  fix opn rs meta
  assume a: "instances_stop ad (trace w) (project ad) zone instance = Inr opn"
    and b: "polled ad fuel (trace w @ [StopCall (project ad) zone instance (Inr opn)]) opn (project ad) zone rs"
    and c: "instances_get ad
          (trace w @ StopCall (project ad) zone instance (Inr opn) # wait_events opn (project ad) zone rs)
          (project ad) zone instance = Inr (Some meta)"
  from vmStopFunc_answers[OF assms a b c]
  show "fst (app VmStop ad fuel req w) =
          Return \<lparr>res_status = 200, res_type = None,
                  res_body = status_text (js_or (first_natIP (Some meta)) None) (js_or (inst_status meta) None)\<rparr>"
    by (simp add: send_def)
next
  fix opn rs opn' rs' meta
  assume a: "instances_stop ad (trace w) (project ad) zone instance = Inr opn"
    and b: "polled ad fuel (trace w @ [StopCall (project ad) zone instance (Inr opn)]) opn (project ad) zone rs"
    and c: "instances_start ad
          (trace w @ StopCall (project ad) zone instance (Inr opn) # wait_events opn (project ad) zone rs)
          (project ad) zone instance = Inr opn'"
    and d: "polled ad fuel
          (trace w @ StopCall (project ad) zone instance (Inr opn) # wait_events opn (project ad) zone rs @
             [StartCall (project ad) zone instance (Inr opn')])
          opn' (project ad) zone rs'"
    and e: "instances_get ad
          (trace w @ StopCall (project ad) zone instance (Inr opn) # wait_events opn (project ad) zone rs @
             StartCall (project ad) zone instance (Inr opn') # wait_events opn' (project ad) zone rs')
          (project ad) zone instance = Inr (Some meta)"
  from vmRestartFunc_answers[OF assms a b c d e]
  show "fst (app VmRestart ad fuel req w) =
          Return \<lparr>res_status = 200, res_type = None,
                  res_body = status_text (js_or (first_natIP (Some meta)) None) (js_or (inst_status meta) None)\<rparr>"
    by (simp add: send_def)
next
  fix route res
  assume r: "route \<in> {VmStart, VmStop, VmRestart, VmStatus}"
    and a: "fst (app route ad fuel req w) = Return res" and b: "res_status res = 200"
  from lifecycle_final_step[OF r assms a b] obtain w' where
    t: "fst (vmStatusString ad zone instance w') = Return (res_body res)"
    and s: "snd (app route ad fuel req w) = snd (vmStatusString ad zone instance w')"
    by blast
  from vmStatusString_Return[OF t] obtain ip st where
    g: "fst (getVmInstance ad zone instance w') = Return (ip, st)" and bd: "res_body res = status_text ip st"
    by blast
  have "trace (snd (app route ad fuel req w)) = trace (snd (getVmInstance ad zone instance w'))"
    unfolding s by simp
  with g bd show "\<exists>w' ip st.
           fst (getVmInstance ad zone instance w') = Return (ip, st) \<and>
           trace (snd (app route ad fuel req w)) = trace (snd (getVmInstance ad zone instance w')) \<and>
           res_body res = status_text ip st"
    by blast
next
  fix ip st
  show "status_text ip st = join ''\<newline>'' (present ip @ present st) @ ''\<newline>''"
    by (rule status_text_join)
qed

text \<open>
  Address \<open>1.2.3.4\<close> and status \<open>RUNNING\<close>: start after two non-terminal polls and a
  terminal one, stop likewise, restart with one more poll for its start, and status all
  answer \<open>"1.2.3.4\nRUNNING\n"\<close>.
\<close>

theorem status_text_rendering_witness:
  "reqZoneInstance req_ok = Inr (''z1'', ''vm1'') \<and>
   polled (scripted_adapter (Some meta_running) [Inr op_running, Inr op_running, Inr op_done, Inr op_done] None) 5
     (trace world0 @ [StartCall (project (scripted_adapter (Some meta_running) [Inr op_running, Inr op_running, Inr op_done, Inr op_done] None)) ''z1'' ''vm1'' (Inr ''op-start'')])
     ''op-start'' (project (scripted_adapter (Some meta_running) [Inr op_running, Inr op_running, Inr op_done, Inr op_done] None)) ''z1'' [op_running, op_running, op_done] \<and>
   fst (app VmStart (scripted_adapter (Some meta_running) [Inr op_running, Inr op_running, Inr op_done, Inr op_done] None) 5 req_ok world0) =
     Return \<lparr>res_status = 200, res_type = None, res_body = ''1.2.3.4\<newline>RUNNING\<newline>''\<rparr> \<and>
   fst (app VmStop (scripted_adapter (Some meta_running) [Inr op_running, Inr op_running, Inr op_done, Inr op_done] None) 5 req_ok world0) =
     Return \<lparr>res_status = 200, res_type = None, res_body = ''1.2.3.4\<newline>RUNNING\<newline>''\<rparr> \<and>
   fst (app VmRestart (scripted_adapter (Some meta_running) [Inr op_running, Inr op_running, Inr op_done, Inr op_done] None) 5 req_ok world0) =
     Return \<lparr>res_status = 200, res_type = None, res_body = ''1.2.3.4\<newline>RUNNING\<newline>''\<rparr> \<and>
   fst (app VmStatus (scripted_adapter (Some meta_running) [Inr op_running, Inr op_running, Inr op_done, Inr op_done] None) 5 req_ok world0) =
     Return \<lparr>res_status = 200, res_type = None, res_body = ''1.2.3.4\<newline>RUNNING\<newline>''\<rparr> \<and>
   status_text (Some ''1.2.3.4'') (Some ''RUNNING'') = ''1.2.3.4\<newline>RUNNING\<newline>''"
proof -
  let ?ad = "(scripted_adapter (Some meta_running) [Inr op_running, Inr op_running, Inr op_done, Inr op_done] None)"
  let ?rs = "[op_running, op_running, op_done]"
  have a: "reqZoneInstance req_ok = Inr (''z1'', ''vm1'')" by code_simp
  note T = status_text_rendering[OF a, where ad = "?ad" and w = world0 and fuel = 5]
  have bt: "status_text (js_or (first_natIP (Some meta_running)) None) (js_or (inst_status meta_running) None) =
               ''1.2.3.4\<newline>RUNNING\<newline>''"
    by (simp add: status_text_def js_or_def first_natIP_def meta_running_def)
  have g: "\<And>h. instances_get ?ad h (project ?ad) ''z1'' ''vm1'' = Inr (Some meta_running)"
    by (simp add: scripted_adapter_def)
  have st: "\<And>h. instances_start ?ad h (project ?ad) ''z1'' ''vm1'' = Inr ''op-start''"
    by (simp add: scripted_adapter_def)
  have sp: "\<And>h. instances_stop ?ad h (project ?ad) ''z1'' ''vm1'' = Inr ''op-stop''"
    by (simp add: scripted_adapter_def)
  have p1: "polled ?ad 5 (trace world0 @ [StartCall (project ?ad) ''z1'' ''vm1'' (Inr ''op-start'')])
              ''op-start'' (project ?ad) ''z1'' ?rs"
    by (simp add: polled_def answers_Cons scripted_adapter_def wait_count_def world0_def
          done_status_def op_running_def op_done_def)
  have p2: "polled ?ad 5 (trace world0 @ [StopCall (project ?ad) ''z1'' ''vm1'' (Inr ''op-stop'')])
              ''op-stop'' (project ?ad) ''z1'' ?rs"
    by (simp add: polled_def answers_Cons scripted_adapter_def wait_count_def world0_def
          done_status_def op_running_def op_done_def)
  have p3: "polled ?ad 5
              (trace world0 @ StopCall (project ?ad) ''z1'' ''vm1'' (Inr ''op-stop'') #
                 wait_events ''op-stop'' (project ?ad) ''z1'' ?rs @
                 [StartCall (project ?ad) ''z1'' ''vm1'' (Inr ''op-start'')])
              ''op-start'' (project ?ad) ''z1'' [op_done]"
    by (simp add: polled_def answers_Cons scripted_adapter_def wait_count_def world0_def
          done_status_def op_done_def)
  have status: "fst (app VmStatus ?ad 5 req_ok world0) =
      Return \<lparr>res_status = 200, res_type = None, res_body = ''1.2.3.4\<newline>RUNNING\<newline>''\<rparr>"
    using T[THEN conjunct1, rule_format, OF g] unfolding bt .
  have start: "fst (app VmStart ?ad 5 req_ok world0) =
      Return \<lparr>res_status = 200, res_type = None, res_body = ''1.2.3.4\<newline>RUNNING\<newline>''\<rparr>"
    using T[THEN conjunct2, THEN conjunct1, rule_format, OF st p1 g] unfolding bt .
  have stop: "fst (app VmStop ?ad 5 req_ok world0) =
      Return \<lparr>res_status = 200, res_type = None, res_body = ''1.2.3.4\<newline>RUNNING\<newline>''\<rparr>"
    using T[THEN conjunct2, THEN conjunct2, THEN conjunct1, rule_format, OF sp p2 g] unfolding bt .
  have restart: "fst (app VmRestart ?ad 5 req_ok world0) =
      Return \<lparr>res_status = 200, res_type = None, res_body = ''1.2.3.4\<newline>RUNNING\<newline>''\<rparr>"
    using T[THEN conjunct2, THEN conjunct2, THEN conjunct2, THEN conjunct1, rule_format, OF sp p2 st p3 g]
    unfolding bt .
  have b: "status_text (Some ''1.2.3.4'') (Some ''RUNNING'') = ''1.2.3.4\<newline>RUNNING\<newline>''"
    by (simp add: status_text_def)
  from a p1 start stop restart status b show ?thesis by blast
qed

text \<open>
  C4. The claim that a probe response without \<open>online\<close> makes \<open>playerCount\<close> fail does not
  hold: \<open>parseInt(undefined)\<close> is \<open>NaN\<close>, no error is thrown, and the handler sends
  \<open>NaN\<close> as text with status 200. What holds: once the address is resolved and the probe
  has answered, a response without \<open>online\<close> yields status 200 with body \<open>"NaN\n"\<close>, and a
  response whose \<open>online\<close> is the decimal numeral of a count \<open>n \<le> 2 ^ 53\<close> yields status 200
  with that numeral and a newline.
\<close>

theorem player_count_rendering:
  assumes "reqZoneInstance req = Inr (zone, instance)"
    and "fst (getVmIP ad zone instance w) = Return ip"
    and "mc_lookup ad (trace (snd (getVmIP ad zone instance w))) ip = Inr mcsStatus"
  shows "(probe_online mcsStatus = None \<longrightarrow>
            fst (mcsPlayersFunc ad fuel req w) =
              Return \<lparr>res_status = 200, res_type = None, res_body = ''NaN\<newline>''\<rparr>) \<and>
         (\<forall>n. n \<le> 2 ^ 53 \<and> probe_online mcsStatus = Some (decimal n) \<longrightarrow>
            fst (mcsPlayersFunc ad fuel req w) =
              Return \<lparr>res_status = 200, res_type = None, res_body = decimal n @ ''\<newline>''\<rparr>)"
proof -
  have r: "fst (mcsPlayersFunc ad fuel req w) =
             Return (send (number_to_string (parseInt (probe_online mcsStatus)) @ ''\<newline>''))"
    by (rule mcsPlayersFunc_probed[OF assms])
  have n: "number_to_string (parseInt None) = ''NaN''"
    by (simp add: parseInt_undefined)
  have d: "\<And>n. number_to_string (parseInt (Some (decimal n))) = decimal n"
    by (simp add: parseInt_def parseInt_string_decimal)
  show ?thesis unfolding r using n d by (simp add: send_def)
qed

text \<open>The response \<open>{status: {players: {online: "5"}}}\<close> yields \<open>"5\n"\<close>.\<close>

theorem player_count_rendering_witness:
  "reqZoneInstance req_ok = Inr (''z1'', ''vm1'') \<and>
   fst (getVmIP (scripted_adapter (Some meta_running) [] (Some probe_five)) ''z1'' ''vm1'' world0) = Return ''1.2.3.4'' \<and>
   mc_lookup (scripted_adapter (Some meta_running) [] (Some probe_five))
     (trace (snd (getVmIP (scripted_adapter (Some meta_running) [] (Some probe_five)) ''z1'' ''vm1'' world0))) ''1.2.3.4'' =
     Inr (Some probe_five) \<and>
   (5::nat) \<le> 2 ^ 53 \<and> probe_online (Some probe_five) = Some (decimal 5) \<and> decimal 5 = ''5'' \<and>
   fst (mcsPlayersFunc (scripted_adapter (Some meta_running) [] (Some probe_five)) 0 req_ok world0) =
     Return \<lparr>res_status = 200, res_type = None, res_body = ''5\<newline>''\<rparr>"
proof -
  let ?ad = "scripted_adapter (Some meta_running) [] (Some probe_five)"
  have a: "reqZoneInstance req_ok = Inr (''z1'', ''vm1'')" by code_simp
  have b: "fst (getVmIP ?ad ''z1'' ''vm1'' world0) = Return ''1.2.3.4''" by code_simp
  have c: "mc_lookup ?ad (trace (snd (getVmIP ?ad ''z1'' ''vm1'' world0))) ''1.2.3.4'' = Inr (Some probe_five)"
    by (simp add: scripted_adapter_def)
  have d: "decimal 5 = ''5''" by code_simp
  have e: "probe_online (Some probe_five) = Some (decimal 5)"
    unfolding d by (simp add: probe_online_def probe_players_def probe_five_def probe_of_def)
  have f: "(5::nat) \<le> 2 ^ 53" by simp
  from player_count_rendering[OF a b c, of 0] e f
  have "fst (mcsPlayersFunc ?ad 0 req_ok world0) =
          Return \<lparr>res_status = 200, res_type = None, res_body = decimal 5 @ ''\<newline>''\<rparr>"
    by blast
  then have g: "fst (mcsPlayersFunc ?ad 0 req_ok world0) =
          Return \<lparr>res_status = 200, res_type = None, res_body = ''5\<newline>''\<rparr>"
    unfolding d by simp
  from a b c d e f g show ?thesis by blast
qed

text \<open>The claim as stated fails on a response whose \<open>players\<close> object has no \<open>online\<close>.\<close>

theorem player_count_nan_counterexample:
  "probe_online (Some probe_no_online) = None \<and>
   fst (app McsPlayerCount (scripted_adapter (Some meta_running) [] (Some probe_no_online)) 0 req_ok world0) =
     Return \<lparr>res_status = 200, res_type = None, res_body = ''NaN\<newline>''\<rparr>"
proof -
  have a: "probe_online (Some probe_no_online) = None"
    by (simp add: probe_online_def probe_players_def probe_no_online_def probe_of_def)
  have b: "fst (app McsPlayerCount (scripted_adapter (Some meta_running) [] (Some probe_no_online)) 0 req_ok world0) =
     Return \<lparr>res_status = 200, res_type = None, res_body = ''NaN\<newline>''\<rparr>"
    by code_simp
  from a b show ?thesis by (rule conjI)
qed

text \<open>
  C5. Once the address is resolved and the probe has answered: when the response has a
  player sample array, \<open>playerList\<close> answers with status 200 and one line
  \<open>name id\<close> per sampled player, joined by newlines, with a newline at the end; when the
  sample array is absent, it answers with a server error (the \<open>TypeError\<close> of calling
  \<open>map\<close> on \<open>undefined\<close>), not with an empty or blank body.
\<close>

theorem player_list_rendering:
  assumes "reqZoneInstance req = Inr (zone, instance)"
    and "fst (getVmIP ad zone instance w) = Return ip"
    and "mc_lookup ad (trace (snd (getVmIP ad zone instance w))) ip = Inr mcsStatus"
  shows "(\<forall>playersList. probe_sample mcsStatus = Some playersList \<longrightarrow>
            fst (mcsPlayerListFunc ad fuel req w) =
              Return \<lparr>res_status = 200, res_type = None,
                      res_body = join ''\<newline>'' (map (\<lambda>player. player_name player @ '' '' @ player_id player) playersList)
                                 @ ''\<newline>''\<rparr>) \<and>
         (probe_sample mcsStatus = None \<longrightarrow>
            (\<exists>msg. fst (mcsPlayerListFunc ad fuel req w) =
                     Return \<lparr>res_status = 500, res_type = None, res_body = ''Error: '' @ msg\<rparr>))"
  using mcsPlayerListFunc_probed[OF assms, of fuel]
  by (auto simp: send_def simp del: append.simps)

text \<open>Two sampled players; and a response without a sample.\<close>

theorem player_list_rendering_witness:
  "reqZoneInstance req_ok = Inr (''z1'', ''vm1'') \<and>
   fst (getVmIP (scripted_adapter (Some meta_running) [] (Some probe_two_players)) ''z1'' ''vm1'' world0) = Return ''1.2.3.4'' \<and>
   mc_lookup (scripted_adapter (Some meta_running) [] (Some probe_two_players))
     (trace (snd (getVmIP (scripted_adapter (Some meta_running) [] (Some probe_two_players)) ''z1'' ''vm1'' world0))) ''1.2.3.4'' =
     Inr (Some probe_two_players) \<and>
   fst (mcsPlayerListFunc (scripted_adapter (Some meta_running) [] (Some probe_two_players)) 0 req_ok world0) =
     Return \<lparr>res_status = 200, res_type = None, res_body = ''Alice u1\<newline>Bob u2\<newline>''\<rparr> \<and>
   probe_sample (Some probe_five) = None \<and>
   fst (mcsPlayerListFunc (scripted_adapter (Some meta_running) [] (Some probe_five)) 0 req_ok world0) =
     Return \<lparr>res_status = 500, res_type = None,
             res_body = ''Error: Cannot read properties of undefined (reading 'map')''\<rparr>"
proof -
  let ?ad = "scripted_adapter (Some meta_running) [] (Some probe_two_players)"
  have a: "reqZoneInstance req_ok = Inr (''z1'', ''vm1'')" by code_simp
  have b: "fst (getVmIP ?ad ''z1'' ''vm1'' world0) = Return ''1.2.3.4''" by code_simp
  have c: "mc_lookup ?ad (trace (snd (getVmIP ?ad ''z1'' ''vm1'' world0))) ''1.2.3.4'' = Inr (Some probe_two_players)"
    by (simp add: scripted_adapter_def)
  have d: "probe_sample (Some probe_two_players) =
             Some [\<lparr>player_name = ''Alice'', player_id = ''u1''\<rparr>, \<lparr>player_name = ''Bob'', player_id = ''u2''\<rparr>]"
    by (simp add: probe_sample_def probe_players_def probe_two_players_def probe_of_def)
  from player_list_rendering[OF a b c, of 0] d
  have e: "fst (mcsPlayerListFunc ?ad 0 req_ok world0) =
     Return \<lparr>res_status = 200, res_type = None, res_body = ''Alice u1\<newline>Bob u2\<newline>''\<rparr>"
    by simp
  have f: "probe_sample (Some probe_five) = None"
    by (simp add: probe_sample_def probe_players_def probe_five_def probe_of_def)
  have g: "fst (mcsPlayerListFunc (scripted_adapter (Some meta_running) [] (Some probe_five)) 0 req_ok world0) =
     Return \<lparr>res_status = 500, res_type = None,
             res_body = ''Error: Cannot read properties of undefined (reading 'map')''\<rparr>"
    by code_simp
  from a b c e f g show ?thesis by blast
qed

text \<open>
  C6. When the metadata of an instance yields no external address, \<open>getVmIP\<close> throws an
  error whose message is \<open>Instance zone/instance IP address not found - unable to connect MCS\<close>
  and so contains both the zone and the instance identifier, while the status text, and
  with it the status route, still succeeds and renders the status alone: for a non-empty
  status \<open>s\<close> the text is \<open>s\<close> and a newline.
\<close>

theorem no_address_failure:
  assumes "instances_get ad (trace w) (project ad) zone instance = Inr (Some meta)"
    and "\<not> truthy (first_natIP (Some meta))"
  shows "fst (getVmIP ad zone instance w) =
           Throw (Error (''Instance '' @ zone @ ''/'' @ instance @ '' IP address not found - unable to connect MCS'')) \<and>
         (\<exists>e. fst (getVmIP ad zone instance w) = Throw e \<and>
               sublist zone (message e) \<and> sublist instance (message e)) \<and>
         fst (vmStatusString ad zone instance w) = Return (status_text None (inst_status meta)) \<and>
         (\<forall>req fuel. reqZoneInstance req = Inr (zone, instance) \<longrightarrow>
            fst (app VmStatus ad fuel req w) = Return (send (status_text None (inst_status meta)))) \<and>
         (\<forall>s. inst_status meta = Some s \<and> s \<noteq> [] \<longrightarrow>
            status_text None (inst_status meta) = s @ ''\<newline>'')"
proof -
  let ?msg = "''Instance '' @ zone @ ''/'' @ instance @ '' IP address not found - unable to connect MCS''"
  have 1: "fst (getVmIP ad zone instance w) = Throw (Error ?msg)"
    by (simp add: getVmIP_not_found[OF assms])
  have "sublist zone (''Instance '' @ zone @ (''/'' @ instance @ '' IP address not found - unable to connect MCS''))"
    by (rule sublist_appendI)
  then have 2: "sublist zone ?msg" by simp
  have "sublist instance ((''Instance '' @ zone @ ''/'') @ instance @ '' IP address not found - unable to connect MCS'')"
    by (rule sublist_appendI)
  then have 3: "sublist instance ?msg" by simp
  have 4: "fst (vmStatusString ad zone instance w) = Return (status_text None (inst_status meta))"
    by (simp add: vmStatusString_Inr[OF assms(1)] status_text_falsy[OF assms(2)])
  have 5: "\<forall>req fuel. reqZoneInstance req = Inr (zone, instance) \<longrightarrow>
            fst (app VmStatus ad fuel req w) = Return (send (status_text None (inst_status meta)))"
    by (simp add: vmStatusFunc_Inr[OF _ assms(1)] status_text_falsy[OF assms(2)])
  have 6: "\<forall>s. inst_status meta = Some s \<and> s \<noteq> [] \<longrightarrow>
            status_text None (inst_status meta) = s @ ''\<newline>''"
    by (simp add: status_text_only_status)
  from 1 2 3 4 5 6 show ?thesis by (simp del: append_assoc)
qed

text \<open>An instance with status \<open>TERMINATED\<close> and no network interfaces.\<close>

theorem no_address_failure_witness:
  "instances_get (scripted_adapter (Some meta_terminated) [] None) (trace world0)
      (project (scripted_adapter (Some meta_terminated) [] None)) ''z1'' ''vm1'' = Inr (Some meta_terminated) \<and>
   \<not> truthy (first_natIP (Some meta_terminated)) \<and>
   reqZoneInstance req_ok = Inr (''z1'', ''vm1'') \<and>
   fst (getVmIP (scripted_adapter (Some meta_terminated) [] None) ''z1'' ''vm1'' world0) =
     Throw (Error ''Instance z1/vm1 IP address not found - unable to connect MCS'') \<and>
   fst (app VmStatus (scripted_adapter (Some meta_terminated) [] None) 0 req_ok world0) =
     Return \<lparr>res_status = 200, res_type = None, res_body = ''TERMINATED\<newline>''\<rparr>"
proof -
  let ?ad = "scripted_adapter (Some meta_terminated) [] None"
  have a: "instances_get ?ad (trace world0) (project ?ad) ''z1'' ''vm1'' = Inr (Some meta_terminated)"
    by (simp add: scripted_adapter_def)
  have b: "\<not> truthy (first_natIP (Some meta_terminated))"
    by (simp add: first_natIP_def meta_terminated_def)
  have c: "reqZoneInstance req_ok = Inr (''z1'', ''vm1'')" by code_simp
  have d: "inst_status meta_terminated = Some ''TERMINATED''" by (simp add: meta_terminated_def)
  from no_address_failure[OF a b] c d
  have "fst (getVmIP ?ad ''z1'' ''vm1'' world0) =
          Throw (Error (''Instance '' @ ''z1'' @ ''/'' @ ''vm1'' @ '' IP address not found - unable to connect MCS''))"
    and "fst (app VmStatus ?ad 0 req_ok world0) = Return (send (''TERMINATED'' @ ''\<newline>''))"
    by auto
  with a b c show ?thesis by (simp add: send_def)
qed

text \<open>
  C7. \<open>getVmInstance\<close> calls \<open>instancesClient.get\<close> exactly once and adds nothing else to the
  record of calls. From the metadata returned, the address is present exactly when the
  first network interface exists, its first access configuration exists and that one has
  a non-empty external address, which is then the address; the status is present exactly
  when the status field is present and non-empty, and is then that field. The two are
  independent: without interfaces the address is absent whatever the status, without a
  status field the status is absent whatever the address.
\<close>

theorem resolver_extracts:
  "trace (snd (getVmInstance ad zone instance w)) =
     trace w @ [GetCall (project ad) zone instance (instances_get ad (trace w) (project ad) zone instance)] \<and>
   (\<forall>meta. instances_get ad (trace w) (project ad) zone instance = Inr (Some meta) \<longrightarrow>
      (\<exists>address status.
         fst (getVmInstance ad zone instance w) = Return (address, status) \<and>
         (\<forall>a. address = Some a \<longleftrightarrow>
            a \<noteq> [] \<and>
            (\<exists>ni nis ac acs. networkInterfaces meta = Some (ni # nis) \<and>
               accessConfigs ni = Some (ac # acs) \<and> natIP ac = Some a)) \<and>
         (\<forall>s. status = Some s \<longleftrightarrow> s \<noteq> [] \<and> inst_status meta = Some s) \<and>
         (networkInterfaces meta = None \<longrightarrow> address = None) \<and>
         (inst_status meta = None \<longrightarrow> status = None)))"
proof (intro conjI allI impI)
  show "trace (snd (getVmInstance ad zone instance w)) =
     trace w @ [GetCall (project ad) zone instance (instances_get ad (trace w) (project ad) zone instance)]"
    by simp
next
  fix meta
  assume g: "instances_get ad (trace w) (project ad) zone instance = Inr (Some meta)"
  have n: "networkInterfaces meta = None \<longrightarrow> js_or (first_natIP (Some meta)) None = None"
    by (simp add: first_natIP_def js_or_def)
  have s: "inst_status meta = None \<longrightarrow> js_or (inst_status meta) None = None"
    by (simp add: js_or_def)
  show "\<exists>address status.
         fst (getVmInstance ad zone instance w) = Return (address, status) \<and>
         (\<forall>a. address = Some a \<longleftrightarrow>
            a \<noteq> [] \<and>
            (\<exists>ni nis ac acs. networkInterfaces meta = Some (ni # nis) \<and>
               accessConfigs ni = Some (ac # acs) \<and> natIP ac = Some a)) \<and>
         (\<forall>s. status = Some s \<longleftrightarrow> s \<noteq> [] \<and> inst_status meta = Some s) \<and>
         (networkInterfaces meta = None \<longrightarrow> address = None) \<and>
         (inst_status meta = None \<longrightarrow> status = None)"
    apply (rule exI[of _ "js_or (first_natIP (Some meta)) None"])
    apply (rule exI[of _ "js_or (inst_status meta) None"])
    using n s
    by (auto simp: getVmInstance_Inr[OF g] js_or_None_iff first_natIP_Some_iff)
qed

text \<open>
  Metadata with a status and no interfaces yields no address and that status; metadata
  with neither yields neither.
\<close>

theorem resolver_extracts_witness:
  "instances_get (scripted_adapter (Some meta_terminated) [] None) (trace world0)
      (project (scripted_adapter (Some meta_terminated) [] None)) ''z1'' ''vm1'' = Inr (Some meta_terminated) \<and>
   fst (getVmInstance (scripted_adapter (Some meta_terminated) [] None) ''z1'' ''vm1'' world0) =
     Return (None, Some ''TERMINATED'') \<and>
   trace (snd (getVmInstance (scripted_adapter (Some meta_terminated) [] None) ''z1'' ''vm1'' world0)) =
     [GetCall ''proj'' ''z1'' ''vm1'' (Inr (Some meta_terminated))] \<and>
   instances_get (scripted_adapter (Some meta_fresh) [] None) (trace world0)
      (project (scripted_adapter (Some meta_fresh) [] None)) ''z1'' ''vm1'' = Inr (Some meta_fresh) \<and>
   fst (getVmInstance (scripted_adapter (Some meta_fresh) [] None) ''z1'' ''vm1'' world0) =
     Return (None, None)"
proof -
  let ?ad = "scripted_adapter (Some meta_terminated) [] None"
  let ?ad' = "scripted_adapter (Some meta_fresh) [] None"
  have g: "instances_get ?ad (trace world0) (project ?ad) ''z1'' ''vm1'' = Inr (Some meta_terminated)"
    by (simp add: scripted_adapter_def)
  have g': "instances_get ?ad' (trace world0) (project ?ad') ''z1'' ''vm1'' = Inr (Some meta_fresh)"
    by (simp add: scripted_adapter_def)
  note R = resolver_extracts[of ?ad "''z1''" "''vm1''" world0]
  note R' = resolver_extracts[of ?ad' "''z1''" "''vm1''" world0]
  have t: "trace (snd (getVmInstance ?ad ''z1'' ''vm1'' world0)) =
          trace world0 @ [GetCall (project ?ad) ''z1'' ''vm1'' (instances_get ?ad (trace world0) (project ?ad) ''z1'' ''vm1'')]"
    by (rule conjunct1[OF R])
  from conjunct2[OF R, THEN spec, THEN mp, OF g]
  obtain address status where
    r: "fst (getVmInstance ?ad ''z1'' ''vm1'' world0) = Return (address, status)"
    and s: "\<forall>s. status = Some s \<longleftrightarrow> s \<noteq> [] \<and> inst_status meta_terminated = Some s"
    and a: "networkInterfaces meta_terminated = None \<longrightarrow> address = None"
    by (elim exE conjE) (rule that; assumption)
  have 1: "address = None" using a by (simp add: meta_terminated_def)
  have 2: "status = Some ''TERMINATED''" using s by (simp add: meta_terminated_def)
  have 3: "trace (snd (getVmInstance ?ad ''z1'' ''vm1'' world0)) = [GetCall ''proj'' ''z1'' ''vm1'' (Inr (Some meta_terminated))]"
    unfolding t g by (simp add: world0_def scripted_adapter_def)
  from conjunct2[OF R', THEN spec, THEN mp, OF g']
  obtain address' status' where
    r': "fst (getVmInstance ?ad' ''z1'' ''vm1'' world0) = Return (address', status')"
    and s': "inst_status meta_fresh = None \<longrightarrow> status' = None"
    and a': "networkInterfaces meta_fresh = None \<longrightarrow> address' = None"
    by (elim exE conjE) (rule that; assumption)
  have 4: "address' = None" using a' by (simp add: meta_fresh_def)
  have 5: "status' = None" using s' by (simp add: meta_fresh_def)
  from g g' r r' 1 2 3 4 5 show ?thesis by simp
qed

text \<open>
  C8. In every run of every route, no call but the last one of the run has failed, and when
  the last call failed with an error, the handler answers with status 500 and the body
  \<open>"Error: "\<close> followed by the message of that error, unchanged: a failed adapter call or
  poll ends the operation, nothing is called after it and no success is reported. For
  restart in particular: when the stop phase throws, the answer is that server error and no
  start call is made.
\<close>

theorem failure_aborts:
  "\<exists>evs. trace (snd (app route ad fuel req w)) = trace w @ evs \<and>
     (\<forall>e \<in> set (butlast evs). failed e = None) \<and>
     (\<forall>err. evs \<noteq> [] \<and> failed (last evs) = Some err \<longrightarrow>
        fst (app route ad fuel req w) =
          Return \<lparr>res_status = 500, res_type = None, res_body = ''Error: '' @ message err\<rparr>) \<and>
     (\<forall>zone inst err.
        route = VmRestart \<and> reqZoneInstance req = Inr (zone, inst) \<and>
        fst (stopInstance ad fuel zone inst (log (Info (''Restart '' @ zone @ ''/'' @ inst)) w)) = Throw err \<longrightarrow>
          fst (app route ad fuel req w) =
            Return \<lparr>res_status = 500, res_type = None, res_body = ''Error: '' @ message err\<rparr> \<and>
          (\<forall>e \<in> set evs. \<not> is_start e))"
proof -
  from app_caught[of route ad fuel req w] obtain evs where
    t: "trace (snd (app route ad fuel req w)) = trace w @ evs"
    and a: "\<forall>e \<in> set (butlast evs). failed e = None"
    and b: "\<forall>err. evs \<noteq> [] \<and> failed (last evs) = Some err \<longrightarrow>
        fst (app route ad fuel req w) =
          Return \<lparr>res_status = 500, res_type = None, res_body = ''Error: '' @ message err\<rparr>"
    by blast
  have c: "\<forall>zone inst err.
        route = VmRestart \<and> reqZoneInstance req = Inr (zone, inst) \<and>
        fst (stopInstance ad fuel zone inst (log (Info (''Restart '' @ zone @ ''/'' @ inst)) w)) = Throw err \<longrightarrow>
          fst (app route ad fuel req w) =
            Return \<lparr>res_status = 500, res_type = None, res_body = ''Error: '' @ message err\<rparr> \<and>
          (\<forall>e \<in> set evs. \<not> is_start e)"
  proof (intro allI impI)
    fix zone inst err
    assume h: "route = VmRestart \<and> reqZoneInstance req = Inr (zone, inst) \<and>
        fst (stopInstance ad fuel zone inst (log (Info (''Restart '' @ zone @ ''/'' @ inst)) w)) = Throw err"
    let ?S = "stopInstance ad fuel zone inst (log (Info (''Restart '' @ zone @ ''/'' @ inst)) w)"
    from h have eq: "app route ad fuel req w = on_error err (snd ?S)"
      by (simp add: vmRestartFunc_stop_failed)
    from stopInstance_no_start[of ad fuel zone inst "log (Info (''Restart '' @ zone @ ''/'' @ inst)) w"]
    obtain evs' where t': "trace (snd ?S) = trace w @ evs'" and n: "\<forall>e \<in> set evs'. \<not> is_start e"
      by auto
    from t t' eq have "evs = evs'" by simp
    with n eq show "fst (app route ad fuel req w) =
            Return \<lparr>res_status = 500, res_type = None, res_body = ''Error: '' @ message err\<rparr> \<and>
          (\<forall>e \<in> set evs. \<not> is_start e)"
      by simp
  qed
  from t a b c show ?thesis by blast
qed

text \<open>A restart whose second poll of the stop operation fails.\<close>

theorem failure_aborts_witness:
  "reqZoneInstance req_ok = Inr (''z1'', ''vm1'') \<and>
   fst (stopInstance (scripted_adapter (Some meta_running) [Inr op_running, Inl (Error ''quota exceeded'')] None) 5 ''z1'' ''vm1''
          (log (Info (''Restart '' @ ''z1'' @ ''/'' @ ''vm1'')) world0)) = Throw (Error ''quota exceeded'') \<and>
   fst (app VmRestart (scripted_adapter (Some meta_running) [Inr op_running, Inl (Error ''quota exceeded'')] None) 5 req_ok world0) =
     Return \<lparr>res_status = 500, res_type = None, res_body = ''Error: quota exceeded''\<rparr> \<and>
   trace (snd (app VmRestart (scripted_adapter (Some meta_running) [Inr op_running, Inl (Error ''quota exceeded'')] None) 5 req_ok world0)) =
     [StopCall ''proj'' ''z1'' ''vm1'' (Inr ''op-stop''),
      WaitCall ''op-stop'' ''proj'' ''z1'' (Inr op_running),
      WaitCall ''op-stop'' ''proj'' ''z1'' (Inl (Error ''quota exceeded''))] \<and>
   (\<exists>evs. trace (snd (app VmRestart (scripted_adapter (Some meta_running) [Inr op_running, Inl (Error ''quota exceeded'')] None) 5 req_ok world0)) = trace world0 @ evs \<and>
      list_all (\<lambda>e. \<not> is_start e) evs)"
proof -
  let ?ad = "scripted_adapter (Some meta_running) [Inr op_running, Inl (Error ''quota exceeded'')] None"
  have a: "reqZoneInstance req_ok = Inr (''z1'', ''vm1'')" by code_simp
  have b: "fst (stopInstance ?ad 5 ''z1'' ''vm1'' (log (Info (''Restart '' @ ''z1'' @ ''/'' @ ''vm1'')) world0)) = Throw (Error ''quota exceeded'')"
    by code_simp
  have c: "trace (snd (app VmRestart ?ad 5 req_ok world0)) =
     [StopCall ''proj'' ''z1'' ''vm1'' (Inr ''op-stop''),
      WaitCall ''op-stop'' ''proj'' ''z1'' (Inr op_running),
      WaitCall ''op-stop'' ''proj'' ''z1'' (Inl (Error ''quota exceeded''))]"
    by code_simp
  from failure_aborts[of VmRestart ?ad 5 req_ok world0] obtain evs where
    t: "trace (snd (app VmRestart ?ad 5 req_ok world0)) = trace world0 @ evs"
    and r: "\<forall>zone inst err.
        VmRestart = VmRestart \<and> reqZoneInstance req_ok = Inr (zone, inst) \<and>
        fst (stopInstance ?ad 5 zone inst (log (Info (''Restart '' @ zone @ ''/'' @ inst)) world0)) = Throw err \<longrightarrow>
          fst (app VmRestart ?ad 5 req_ok world0) =
            Return \<lparr>res_status = 500, res_type = None, res_body = ''Error: '' @ message err\<rparr> \<and>
          (\<forall>e \<in> set evs. \<not> is_start e)"
    by blast
  from r a b have d: "fst (app VmRestart ?ad 5 req_ok world0) =
            Return \<lparr>res_status = 500, res_type = None, res_body = ''Error: '' @ message (Error ''quota exceeded'')\<rparr>"
    and e: "\<forall>e \<in> set evs. \<not> is_start e"
    by blast+
  from e have "list_all (\<lambda>e. \<not> is_start e) evs" by (simp add: list_all_iff)
  with t have f: "\<exists>evs. trace (snd (app VmRestart ?ad 5 req_ok world0)) = trace world0 @ evs \<and>
      list_all (\<lambda>e. \<not> is_start e) evs" by blast
  from a b c d f show ?thesis by simp
qed

text \<open>
  C9. When the first external address in the metadata is the empty string, the resolver
  returns an absent address, \<open>getVmIP\<close> throws the address-not-found error, and the status
  text has no address line: all three are exactly what metadata without any address (and
  the same status) yields. Likewise an empty status field is returned as absent and is left
  out of the status text.
\<close>

theorem empty_string_is_absent:
  assumes "instances_get ad (trace w) (project ad) zone instance = Inr (Some meta)"
  shows "(first_natIP (Some meta) = Some [] \<longrightarrow>
            fst (getVmInstance ad zone instance w) = Return (None, js_or (inst_status meta) None) \<and>
            fst (getVmIP ad zone instance w) =
              Throw (Error (''Instance '' @ zone @ ''/'' @ instance @ '' IP address not found - unable to connect MCS'')) \<and>
            fst (vmStatusString ad zone instance w) = Return (status_text None (inst_status meta)) \<and>
            (\<forall>ad' meta'.
               instances_get ad' (trace w) (project ad') zone instance = Inr (Some meta') \<and>
               first_natIP (Some meta') = None \<and> inst_status meta' = inst_status meta \<longrightarrow>
                 fst (getVmInstance ad' zone instance w) = fst (getVmInstance ad zone instance w) \<and>
                 fst (getVmIP ad' zone instance w) = fst (getVmIP ad zone instance w) \<and>
                 fst (vmStatusString ad' zone instance w) = fst (vmStatusString ad zone instance w))) \<and>
         (inst_status meta = Some [] \<longrightarrow>
            fst (getVmInstance ad zone instance w) = Return (js_or (first_natIP (Some meta)) None, None) \<and>
            fst (vmStatusString ad zone instance w) = Return (status_text (first_natIP (Some meta)) None) \<and>
            (\<forall>a. first_natIP (Some meta) = Some a \<and> a \<noteq> [] \<longrightarrow>
               fst (vmStatusString ad zone instance w) = Return (a @ ''\<newline>'')))"
proof (intro conjI impI)
  assume e: "first_natIP (Some meta) = Some []"
  then have f: "\<not> truthy (first_natIP (Some meta))" by simp
  show "fst (getVmInstance ad zone instance w) = Return (None, js_or (inst_status meta) None)"
    using e by (simp add: getVmInstance_Inr[OF assms] js_or_def)
  show "fst (getVmIP ad zone instance w) =
              Throw (Error (''Instance '' @ zone @ ''/'' @ instance @ '' IP address not found - unable to connect MCS''))"
    by (simp add: getVmIP_not_found[OF assms f])
  show "fst (vmStatusString ad zone instance w) = Return (status_text None (inst_status meta))"
    by (simp add: vmStatusString_Inr[OF assms] status_text_falsy[OF f])
  show "\<forall>ad' meta'.
               instances_get ad' (trace w) (project ad') zone instance = Inr (Some meta') \<and>
               first_natIP (Some meta') = None \<and> inst_status meta' = inst_status meta \<longrightarrow>
                 fst (getVmInstance ad' zone instance w) = fst (getVmInstance ad zone instance w) \<and>
                 fst (getVmIP ad' zone instance w) = fst (getVmIP ad zone instance w) \<and>
                 fst (vmStatusString ad' zone instance w) = fst (vmStatusString ad zone instance w)"
  proof (intro allI impI, elim conjE)
    fix ad' :: adapter and meta' :: instance_meta
    assume g': "instances_get ad' (trace w) (project ad') zone instance = Inr (Some meta')"
      and n': "first_natIP (Some meta') = None" and s': "inst_status meta' = inst_status meta"
    from n' have f': "\<not> truthy (first_natIP (Some meta'))" by simp
    have 1: "fst (getVmInstance ad' zone instance w) = fst (getVmInstance ad zone instance w)"
      using e n' s' by (simp add: getVmInstance_Inr[OF assms] getVmInstance_Inr[OF g'] js_or_def)
    have 2: "fst (getVmIP ad' zone instance w) = fst (getVmIP ad zone instance w)"
      by (simp add: getVmIP_not_found[OF assms f] getVmIP_not_found[OF g' f'])
    have 3: "fst (vmStatusString ad' zone instance w) = fst (vmStatusString ad zone instance w)"
      using s' by (simp add: vmStatusString_Inr[OF assms] vmStatusString_Inr[OF g']
            status_text_falsy[OF f] status_text_falsy[OF f'])
    from 1 2 3 show "fst (getVmInstance ad' zone instance w) = fst (getVmInstance ad zone instance w) \<and>
                 fst (getVmIP ad' zone instance w) = fst (getVmIP ad zone instance w) \<and>
                 fst (vmStatusString ad' zone instance w) = fst (vmStatusString ad zone instance w)"
      by simp
  qed
next
  assume s: "inst_status meta = Some []"
  show "fst (getVmInstance ad zone instance w) = Return (js_or (first_natIP (Some meta)) None, None)"
    using s by (simp add: getVmInstance_Inr[OF assms] js_or_def)
  show "fst (vmStatusString ad zone instance w) = Return (status_text (first_natIP (Some meta)) None)"
    using s by (simp add: vmStatusString_Inr[OF assms] status_text_falsy_status[of "Some []"])
  show "\<forall>a. first_natIP (Some meta) = Some a \<and> a \<noteq> [] \<longrightarrow>
               fst (vmStatusString ad zone instance w) = Return (a @ ''\<newline>'')"
    using s by (auto simp: vmStatusString_Inr[OF assms] status_text_falsy_status[of "Some []"] status_text_only_address)
qed

text \<open>An instance whose first access configuration has the empty string as external address.\<close>

theorem empty_string_is_absent_witness:
  "instances_get (scripted_adapter (Some meta_empty_ip) [] None) (trace world0)
      (project (scripted_adapter (Some meta_empty_ip) [] None)) ''z1'' ''vm1'' = Inr (Some meta_empty_ip) \<and>
   first_natIP (Some meta_empty_ip) = Some [] \<and>
   fst (getVmInstance (scripted_adapter (Some meta_empty_ip) [] None) ''z1'' ''vm1'' world0) =
     Return (None, Some ''STOPPING'') \<and>
   fst (getVmIP (scripted_adapter (Some meta_empty_ip) [] None) ''z1'' ''vm1'' world0) =
     Throw (Error ''Instance z1/vm1 IP address not found - unable to connect MCS'') \<and>
   fst (vmStatusString (scripted_adapter (Some meta_empty_ip) [] None) ''z1'' ''vm1'' world0) =
     Return ''STOPPING\<newline>''"
proof -
  let ?ad = "scripted_adapter (Some meta_empty_ip) [] None"
  have a: "instances_get ?ad (trace world0) (project ?ad) ''z1'' ''vm1'' = Inr (Some meta_empty_ip)"
    by (simp add: scripted_adapter_def)
  have b: "first_natIP (Some meta_empty_ip) = Some []"
    by (simp add: first_natIP_def meta_empty_ip_def)
  have c: "inst_status meta_empty_ip = Some ''STOPPING''" by (simp add: meta_empty_ip_def)
  from empty_string_is_absent[OF a] b
  have "fst (getVmInstance ?ad ''z1'' ''vm1'' world0) = Return (None, js_or (inst_status meta_empty_ip) None)"
    and "fst (getVmIP ?ad ''z1'' ''vm1'' world0) =
              Throw (Error (''Instance '' @ ''z1'' @ ''/'' @ ''vm1'' @ '' IP address not found - unable to connect MCS''))"
    and "fst (vmStatusString ?ad ''z1'' ''vm1'' world0) = Return (status_text None (inst_status meta_empty_ip))"
    by blast+
  with a b c show ?thesis by (simp add: js_or_def status_text_def)
qed




end
